theory Spec2Isabelle
  imports Main
begin

section \<open>JavaScript strings\<close>

text \<open>
  A string is the UTF-8 encoding of the JavaScript string; substring tests, equality,
  concatenation and the tag pattern of the code agree with their counterparts on the
  encoding. \<open>String.prototype.includes\<close> is the substring test.
\<close>

fun starts_with :: "string \<Rightarrow> string \<Rightarrow> bool" where
  "starts_with s [] = True"
| "starts_with [] (c # cs) = False"
| "starts_with (x # xs) (c # cs) = (x = c \<and> starts_with xs cs)"

fun str_includes :: "string \<Rightarrow> string \<Rightarrow> bool" where
  "str_includes [] sub = (sub = [])"
| "str_includes (x # xs) sub = (starts_with (x # xs) sub \<or> str_includes xs sub)"

text \<open>
  \<open>String.prototype.trim\<close> removes white space and line terminators at both ends:
  U+0009 to U+000D, U+0020, U+00A0, U+1680, U+2000 to U+200A, U+2028, U+2029, U+202F,
  U+205F, U+3000 and U+FEFF, here in their encodings.
\<close>

definition js_white_space :: "string list" where
  "js_white_space =
     [[CHR 0x09], [CHR 0x0A], [CHR 0x0B], [CHR 0x0C], [CHR 0x0D], [CHR 0x20],
      [CHR 0xC2, CHR 0xA0], [CHR 0xE1, CHR 0x9A, CHR 0x80],
      [CHR 0xE2, CHR 0x80, CHR 0x80], [CHR 0xE2, CHR 0x80, CHR 0x81],
      [CHR 0xE2, CHR 0x80, CHR 0x82], [CHR 0xE2, CHR 0x80, CHR 0x83],
      [CHR 0xE2, CHR 0x80, CHR 0x84], [CHR 0xE2, CHR 0x80, CHR 0x85],
      [CHR 0xE2, CHR 0x80, CHR 0x86], [CHR 0xE2, CHR 0x80, CHR 0x87],
      [CHR 0xE2, CHR 0x80, CHR 0x88], [CHR 0xE2, CHR 0x80, CHR 0x89],
      [CHR 0xE2, CHR 0x80, CHR 0x8A], [CHR 0xE2, CHR 0x80, CHR 0xA8],
      [CHR 0xE2, CHR 0x80, CHR 0xA9], [CHR 0xE2, CHR 0x80, CHR 0xAF],
      [CHR 0xE2, CHR 0x81, CHR 0x9F], [CHR 0xE3, CHR 0x80, CHR 0x80],
      [CHR 0xEF, CHR 0xBB, CHR 0xBF]]"

text \<open>Removing from the front of a string, as long as one is there, any of the given
  sequences.\<close>

function strip_any :: "string list \<Rightarrow> string \<Rightarrow> string" where
  "strip_any ws s =
     (case find (\<lambda>w. w \<noteq> [] \<and> starts_with s w) ws of
        None \<Rightarrow> s
      | Some w \<Rightarrow> strip_any ws (drop (length w) s))"
  by pat_completeness auto
termination
proof (relation "measure (\<lambda>(ws, s). length s)")
  fix ws :: "string list" and s w :: string
  assume "find (\<lambda>w. w \<noteq> [] \<and> starts_with s w) ws = Some w"
  then have "w \<noteq> [] \<and> starts_with s w" by (auto simp: find_Some_iff)
  then have "s \<noteq> []" by (cases s; cases w) auto
  with \<open>w \<noteq> [] \<and> starts_with s w\<close>
  show "((ws, drop (length w) s), (ws, s)) \<in> measure (\<lambda>(ws, s). length s)" by simp
qed simp

definition trim :: "string \<Rightarrow> string" where
  "trim s = rev (strip_any (map rev js_white_space) (rev (strip_any js_white_space s)))"

section \<open>The peer and the network\<close>

text \<open>
  Every call to the peer names one endpoint of \<open>/AppVisionService.svc/\<close>, the host it is
  sent to and the \<open>SessionID\<close> header (absent when the variable holding it is undefined).
  \<open>Login\<close> carries the user name and the password of its XML body,
  \<open>GetProfileByName\<close> the name of its query string.
\<close>

datatype endpoint =
    Open | Login string string | StartNotifications | AddFilterNotifications
  | GetNotifications | Close | KeepAlive | Logout
  | GetProfileByName string | GetCurrentAlarms

record request =
  host :: string
  endpoint :: endpoint
  session_header :: "string option"

text \<open>A call either fails in transport or comes back with a status and a body.\<close>

datatype reply = NetError string | Http nat string

section \<open>Parsed XML\<close>

text \<open>
  What \<open>fast-xml-parser\<close> hands back: text, numbers, booleans, objects (tag and
  attribute names to values) and arrays. Parsing itself is the library's.
\<close>

datatype xv = XStr string | XNum int | XBool bool | XObj "(string \<times> xv) list" | XArr "xv list"

text \<open>
  Property access \<open>v.name\<close> or \<open>v?.name\<close> for the names the code reads
  (\<open>ArrayOfNotification\<close>, \<open>Notification\<close>, \<open>Data\<close>, the attribute \<open>i:type\<close>, \<open>type\<close>,
  \<open>Alarm\<close>, \<open>Description\<close>, \<open>ArrayOfAlarmRow\<close>, \<open>AlarmRow\<close>): only an object has them;
  \<open>None\<close> is JavaScript's \<open>undefined\<close>.
\<close>

fun get_prop :: "xv option \<Rightarrow> string \<Rightarrow> xv option" where
  "get_prop (Some (XObj kvs)) k = map_of kvs k"
| "get_prop _ k = None"

fun truthy :: "xv option \<Rightarrow> bool" where
  "truthy None = False"
| "truthy (Some (XStr s)) = (s \<noteq> [])"
| "truthy (Some (XNum n)) = (n \<noteq> 0)"
| "truthy (Some (XBool b)) = b"
| "truthy (Some (XObj kvs)) = True"
| "truthy (Some (XArr xs)) = True"

section \<open>What is observed: requests and fan-outs\<close>

datatype out_item =
    StatusMessage string
  | StatusMessageSession string string
  | Notification xv xv
  | AlarmNotification xv xv xv

datatype exec_data = Json out_item

datatype event = Request request | Emit "exec_data list list"

type_synonym peer = "event list \<Rightarrow> request \<Rightarrow> reply"

section \<open>The session file\<close>

text \<open>
  The two processes share the directory \<open>session/\<close>. \<open>sessionId.json\<close> is declared by
  the readers as an array of \<open>{sessionId?, ip?}\<close>; \<open>sessionIdMcp.json\<close> is written as
  the object \<open>{sessionId}\<close>. A file that \<open>JSON.parse\<close> rejects is \<open>Unparsable\<close>.
  A session id or an address that is missing, \<open>null\<close> or of another type is \<open>None\<close>;
  documents of other shapes are outside the declared types and are not modelled.
\<close>

datatype session_entry = Entry (entry_sessionId: "string option") (entry_ip: "string option")

datatype session_doc = ArrayDoc "session_entry list" | ObjectDoc "string option" | Unparsable

record fs =
  dir_exists :: bool
  session_file :: "session_doc option"
  session_file_mcp :: "session_doc option"

record world =
  files :: fs
  trace :: "event list"

definition do_fetch :: "peer \<Rightarrow> request \<Rightarrow> 'a world_scheme \<Rightarrow> reply \<times> 'a world_scheme" where
  "do_fetch p rq w = (p (trace w) rq, w\<lparr>trace := trace w @ [Request rq]\<rparr>)"

section \<open>sessionManager.ts\<close>

datatype timer_action = KeepAliveProbe "string option" string | StopKeepAlive

datatype timer = Interval nat timer_action | Timeout nat timer_action

record mstate = world +
  keepAliveInterval :: "nat option"
  stopKeepAliveTimeout :: "nat option"
  timers :: "(nat \<times> timer) list"
  next_handle :: nat
  unhandled_rejection :: bool

definition non_empty :: "string option \<Rightarrow> string option" where
  "non_empty v = (case v of None \<Rightarrow> None | Some s \<Rightarrow> if s = [] then None else Some s)"

definition getSession :: "fs \<Rightarrow> string option" where
  "getSession f =
     (case session_file f of
        None \<Rightarrow> None
      | Some Unparsable \<Rightarrow> None
      | Some (ObjectDoc v) \<Rightarrow> None
      | Some (ArrayDoc es) \<Rightarrow>
          (case es of [] \<Rightarrow> None | e # rest \<Rightarrow> non_empty (entry_sessionId e)))"

definition saveSessionToFile :: "string option \<Rightarrow> fs \<Rightarrow> fs" where
  "saveSessionToFile sid f = f\<lparr>dir_exists := True, session_file_mcp := Some (ObjectDoc sid)\<rparr>"

definition getIp :: "fs \<Rightarrow> string option" where
  "getIp f =
     (case session_file f of
        None \<Rightarrow> None
      | Some Unparsable \<Rightarrow> None
      | Some (ObjectDoc v) \<Rightarrow> None
      | Some (ArrayDoc es) \<Rightarrow>
          (case es of [] \<Rightarrow> None | e # rest \<Rightarrow> non_empty (entry_ip e)))"

text \<open>
  \<open>keepAlive\<close> reads \<open>parsed.sessionId\<close> of the session file: an array has no such
  property. On an unparsable file \<open>JSON.parse\<close> throws outside any \<open>try\<close>, before
  anything is armed: the promise of \<open>keepAlive\<close> rejects, and as every caller calls it
  without \<open>await\<close> or \<open>catch\<close> the rejection stays unhandled, on which the runtime ends
  the process once the work at hand is done; \<open>unhandled_rejection\<close> records it.
\<close>

definition keepAlive :: "mstate \<Rightarrow> mstate" where
  "keepAlive st =
     (let ip = getIp (files st) in
      case session_file (files st) of
        None \<Rightarrow> st
      | Some Unparsable \<Rightarrow> st\<lparr>unhandled_rejection := True\<rparr>
      | Some (ArrayDoc es) \<Rightarrow> st
      | Some (ObjectDoc v) \<Rightarrow>
          (case non_empty v of
             None \<Rightarrow> st
           | Some sid \<Rightarrow>
               (let h1 = next_handle st; h2 = Suc h1 in
                st\<lparr>keepAliveInterval := Some h1,
                   stopKeepAliveTimeout := Some h2,
                   timers := timers st @
                     [(h1, Interval 10000 (KeepAliveProbe ip sid)),
                      (h2, Timeout (5 * 60 * 1000) StopKeepAlive)],
                   next_handle := Suc h2\<rparr>)))"

definition removeSession :: "fs \<Rightarrow> fs" where
  "removeSession f = f\<lparr>session_file := None\<rparr>"

definition clear_timer :: "nat option \<Rightarrow> (nat \<times> timer) list \<Rightarrow> (nat \<times> timer) list" where
  "clear_timer h ts = (case h of None \<Rightarrow> ts | Some k \<Rightarrow> filter (\<lambda>t. fst t \<noteq> k) ts)"

definition render :: "string option \<Rightarrow> string" where
  "render v = (case v of None \<Rightarrow> ''null'' | Some s \<Rightarrow> s)"

definition stopKeepAlive :: "peer \<Rightarrow> mstate \<Rightarrow> mstate" where
  "stopKeepAlive p st =
     (let st1 = st\<lparr>timers := clear_timer (keepAliveInterval st) (timers st),
                   keepAliveInterval := None\<rparr>;
          st2 = st1\<lparr>timers := clear_timer (stopKeepAliveTimeout st1) (timers st1),
                    stopKeepAliveTimeout := None\<rparr>
      in case (getSession (files st2), getIp (files st2)) of
           (Some sid, Some ip) \<Rightarrow>
             (let (r, st3) = do_fetch p \<lparr>host = ip, endpoint = Logout, session_header = Some sid\<rparr> st2
              in st3\<lparr>files := removeSession (files st3)\<rparr>)
         | _ \<Rightarrow> st2)"

text \<open>What the two timers run when they fire: the probe with the address and the session
  id it captured when it was armed, and \<open>stopKeepAlive\<close>.\<close>

definition fire :: "peer \<Rightarrow> timer_action \<Rightarrow> mstate \<Rightarrow> mstate" where
  "fire p a st =
     (case a of
        KeepAliveProbe ip sid \<Rightarrow>
          snd (do_fetch p \<lparr>host = render ip, endpoint = KeepAlive, session_header = Some sid\<rparr> st)
      | StopKeepAlive \<Rightarrow> stopKeepAlive p st)"

section \<open>utils.ts and the tools of index.js\<close>

definition response_text :: "reply \<Rightarrow> string option" where
  "response_text r =
     (case r of
        NetError m \<Rightarrow> None
      | Http status body \<Rightarrow>
          if 200 \<le> status \<and> status \<le> 299 then (if body = [] then None else Some body)
          else None)"

definition AppVisionRequest :: "peer \<Rightarrow> request \<Rightarrow> mstate \<Rightarrow> string option \<times> mstate" where
  "AppVisionRequest p rq st = (let (r, st1) = do_fetch p rq st in (response_text r, st1))"

definition getSessionAndHeaders :: "mstate \<Rightarrow> (string \<times> string option) option \<times> mstate" where
  "getSessionAndHeaders st =
     (let st1 = keepAlive st;
          sessionId = getSession (files st1);
          ip = getIp (files st1)
      in case sessionId of
           None \<Rightarrow> (None, st1)
         | Some sid \<Rightarrow> (Some (sid, ip), st1))"

definition no_active_session :: string where
  "no_active_session = ''No active session. Please log in first.''"

text \<open>
  The check for a session with which a tool opens, in its two forms: through
  \<open>getSessionAndHeaders\<close>, and with the same steps inline. \<open>rest\<close> is what the tool
  does once it has the session id and the address. \<open>get-profile-by-name\<close> and
  \<open>get-current-alarms\<close> below are tools of the first and of the second form.
\<close>

definition tool_with_helper ::
  "(string \<Rightarrow> string option \<Rightarrow> mstate \<Rightarrow> string \<times> mstate) \<Rightarrow> mstate \<Rightarrow> string \<times> mstate" where
  "tool_with_helper rest st =
     (let (sessionData, st1) = getSessionAndHeaders st in
      case sessionData of
        None \<Rightarrow> (no_active_session, st1)
      | Some (sid, ip) \<Rightarrow> rest sid ip st1)"

definition tool_inline ::
  "(string \<Rightarrow> string option \<Rightarrow> mstate \<Rightarrow> string \<times> mstate) \<Rightarrow> mstate \<Rightarrow> string \<times> mstate" where
  "tool_inline rest st =
     (let st1 = keepAlive st;
          sessionId = getSession (files st1);
          ip = getIp (files st1)
      in case sessionId of
           None \<Rightarrow> (no_active_session, st1)
         | Some sid \<Rightarrow> rest sid ip st1)"

definition get_profile_by_name :: "peer \<Rightarrow> string \<Rightarrow> mstate \<Rightarrow> string \<times> mstate" where
  "get_profile_by_name p name st =
     (let (sessionData, st1) = getSessionAndHeaders st in
      case sessionData of
        None \<Rightarrow> (no_active_session, st1)
      | Some (sid, ip) \<Rightarrow>
          (let (response, st2) =
                 AppVisionRequest p
                   \<lparr>host = render ip, endpoint = GetProfileByName name, session_header = Some sid\<rparr> st1
           in case response of
                None \<Rightarrow> (''No profile found with name: '' @ name @ ''.'', st2)
              | Some r \<Rightarrow> (''Profile retrieved successfully: '' @ r, st2)))"

definition get_current_alarms :: "peer \<Rightarrow> mstate \<Rightarrow> string \<times> mstate" where
  "get_current_alarms p st =
     (let st1 = keepAlive st;
          sessionId = getSession (files st1);
          ip = getIp (files st1)
      in case sessionId of
           None \<Rightarrow> (no_active_session, st1)
         | Some sid \<Rightarrow>
             (let (result, st2) =
                    AppVisionRequest p
                      \<lparr>host = render ip, endpoint = GetCurrentAlarms, session_header = Some sid\<rparr> st1
              in case result of
                   None \<Rightarrow> (''Failed to retrieve current alarms.'', st2)
                 | Some r \<Rightarrow> (r, st2)))"

text \<open>
  \<open>login-session\<close>. The text of the first \<open><string>\<close> element of the \<open>Open\<close> reply is
  read with \<open>xmldom\<close>; \<open>string_text\<close> stands for these library calls on the body:
  \<open>Inl\<close> the message of the error they throw, \<open>Inr None\<close> where the document has no
  such element, \<open>Inr\<close> its \<open>textContent\<close> otherwise. Whatever is thrown is caught
  with the failure of the \<open>fetch\<close> itself. The plain \<open>fetch\<close> of \<open>Open\<close> does not look
  at the status.
\<close>

definition read_session_id ::
  "(string \<Rightarrow> string + string option) \<Rightarrow> reply \<Rightarrow> string + string" where
  "read_session_id string_text r =
     (case r of
        NetError m \<Rightarrow> Inl (''Error retrieving sessionId: '' @ m)
      | Http status sessionIdXml \<Rightarrow>
          (case string_text sessionIdXml of
             Inl m \<Rightarrow> Inl (''Error retrieving sessionId: '' @ m)
           | Inr sessionIdNode \<Rightarrow>
               (case non_empty sessionIdNode of
                  None \<Rightarrow>
                    Inl ''Error retrieving sessionId: Session ID not found in the response XML.''
                | Some textContent \<Rightarrow>
                    (let sessionId = trim textContent in
                     if sessionId = [] then Inl ''Failed to retrieve sessionId from AppVision.''
                     else Inr sessionId))))"

definition login_result :: "string option \<Rightarrow> string" where
  "login_result result =
     (case result of
        None \<Rightarrow> ''Session created successfully: null''
      | Some r \<Rightarrow>
          if str_includes r ''401'' then ''Unauthorized: Incorrect username or password.''
          else if str_includes r ''402''
            then ''Too many clients or users connected. Please try again later.''
          else if str_includes r ''406'' then ''New user detected. Please change the password.''
          else if str_includes r ''500'' then ''Internal server error. Please contact support.''
          else ''Session created successfully: '' @ r)"

definition login_session ::
  "(string \<Rightarrow> string + string option) \<Rightarrow> peer \<Rightarrow> string \<Rightarrow> string \<Rightarrow> mstate \<Rightarrow>
     string \<times> mstate" where
  "login_session string_text p username password st =
     (let ip = getIp (files st);
          (r, st1) = do_fetch p \<lparr>host = render ip, endpoint = Open, session_header = None\<rparr> st
      in case read_session_id string_text r of
           Inl msg \<Rightarrow> (msg, st1)
         | Inr sessionId \<Rightarrow>
             (let st2 = st1\<lparr>files := saveSessionToFile (Some sessionId) (files st1)\<rparr>;
                  st3 = keepAlive st2;
                  (result, st4) =
                     AppVisionRequest p
                       \<lparr>host = render ip, endpoint = Login username password,
                        session_header = Some sessionId\<rparr> st3;
                  (r5, st5) =
                     AppVisionRequest p
                       \<lparr>host = render ip, endpoint = StartNotifications,
                        session_header = Some sessionId\<rparr> st4;
                  (r6, st6) =
                     AppVisionRequest p
                       \<lparr>host = render ip, endpoint = AddFilterNotifications,
                        session_header = Some sessionId\<rparr> st5
              in (login_result result, st6)))"

section \<open>AppvisionTrigger.node.ts\<close>

record credentials =
  username :: string
  password :: string
  ip :: string

record tstate = world +
  outputArray :: "out_item list list"
  sessionId :: "string option"
  isActive :: bool
  isFirstTime :: bool
  isConnecting :: bool

text \<open>
  A run of the trigger ends normally, by an exception that nothing catches, or it does
  not end within the iterations allowed to its waiting loops.
\<close>

datatype 'a outcome = Ok 'a | Threw 'a | OutOfFuel

text \<open>\<open>this.helpers.request\<close> rejects on a transport error and on a status outside 2xx.\<close>

definition request_body :: "reply \<Rightarrow> string option" where
  "request_body r =
     (case r of
        NetError m \<Rightarrow> None
      | Http status body \<Rightarrow> if 200 \<le> status \<and> status \<le> 299 then Some body else None)"

definition helpers_request ::
  "peer \<Rightarrow> request \<Rightarrow> 'a world_scheme \<Rightarrow> string option \<times> 'a world_scheme" where
  "helpers_request p rq st = (let (r, st1) = do_fetch p rq st in (request_body r, st1))"

text \<open>\<open>response.replace(/<[^>]+>/g, '')\<close>: every \<open><\<close>, one or more characters other than
  \<open>>\<close>, and the \<open>>\<close> that follows are removed.\<close>

function strip_tags :: "string \<Rightarrow> string" where
  "strip_tags [] = []"
| "strip_tags (c # cs) =
     (if c = CHR ''<'' then
        (let inside = takeWhile (\<lambda>x. x \<noteq> CHR ''>'') cs;
             rest = dropWhile (\<lambda>x. x \<noteq> CHR ''>'') cs
         in if inside \<noteq> [] \<and> rest \<noteq> [] then strip_tags (tl rest) else c # strip_tags cs)
      else c # strip_tags cs)"
  by pat_completeness auto
termination
proof (relation "measure length")
  fix c :: char and cs x xa
  assume "xa = dropWhile (\<lambda>x. x \<noteq> CHR ''>'') cs"
  moreover have "length (tl (dropWhile (\<lambda>x. x \<noteq> CHR ''>'') cs)) \<le> length cs"
    using length_dropWhile_le [of "\<lambda>x. x \<noteq> CHR ''>''" cs] by simp
  ultimately show "(tl xa, c # cs) \<in> measure length" by simp
qed auto

text \<open>
  \<open>waitForServer\<close> probes \<open>Open\<close> every two seconds until the peer answers with a
  non-empty body; the first argument bounds the iterations of its \<open>while\<close> loop.
\<close>

fun waitForServer ::
  "nat \<Rightarrow> peer \<Rightarrow> credentials \<Rightarrow> tstate \<Rightarrow> (string option \<times> tstate) option" where
  "waitForServer 0 p cr st = (if isActive st then None else Some (None, st))"
| "waitForServer (Suc n) p cr st =
     (if \<not> isActive st then Some (None, st)
      else if isConnecting st then waitForServer n p cr st
      else
        (let st1 = st\<lparr>isConnecting := True\<rparr>;
             (r, st2) = helpers_request p
                          \<lparr>host = ip cr, endpoint = Open, session_header = None\<rparr> st1
         in case r of
              None \<Rightarrow> waitForServer n p cr (st2\<lparr>isConnecting := False\<rparr>)
            | Some response \<Rightarrow>
                if response \<noteq> []
                then Some (Some (strip_tags response), st2\<lparr>isConnecting := False\<rparr>)
                else waitForServer n p cr (st2\<lparr>isConnecting := False\<rparr>)))"

text \<open>\<open>fs.writeFile\<close> of \<open>[{sessionId, ip}]\<close>; it fails, and the failure is logged, when
  the directory is missing.\<close>

definition write_session_file :: "string option \<Rightarrow> string \<Rightarrow> fs \<Rightarrow> fs" where
  "write_session_file sid addr f =
     (if dir_exists f then f\<lparr>session_file := Some (ArrayDoc [Entry sid (Some addr)])\<rparr> else f)"

definition empty_channels :: "out_item list list" where
  "empty_channels = [[], [], [], [], [], [], [], []]"

definition connectToServer :: "nat \<Rightarrow> peer \<Rightarrow> credentials \<Rightarrow> tstate \<Rightarrow> tstate outcome" where
  "connectToServer fuel p cr st =
     (case waitForServer fuel p cr st of
        None \<Rightarrow> OutOfFuel
      | Some (sid, st1) \<Rightarrow>
          (let st2 = st1\<lparr>sessionId := sid\<rparr>;
               st3 = st2\<lparr>files := write_session_file sid (ip cr) (files st2)\<rparr>;
               (r, st4) = helpers_request p
                            \<lparr>host = ip cr, endpoint = Login (username cr) (password cr),
                             session_header = sid\<rparr> st3
           in case r of
                None \<Rightarrow> Threw st4
              | Some b \<Rightarrow>
                  Ok (st4\<lparr>outputArray :=
                            empty_channels[6 := [StatusMessage ''Connection successful'']],
                          isFirstTime := True\<rparr>)))"

definition enableNotifications :: "peer \<Rightarrow> credentials \<Rightarrow> tstate \<Rightarrow> tstate outcome" where
  "enableNotifications p cr st =
     (let (r1, st1) = helpers_request p
                        \<lparr>host = ip cr, endpoint = StartNotifications,
                         session_header = sessionId st\<rparr> st
      in case r1 of
           None \<Rightarrow> Threw st1
         | Some b1 \<Rightarrow>
             (let (r2, st2) = helpers_request p
                                \<lparr>host = ip cr, endpoint = AddFilterNotifications,
                                 session_header = sessionId st1\<rparr> st1
              in case r2 of None \<Rightarrow> Threw st2 | Some b2 \<Rightarrow> Ok st2))"

definition returnJsonArray :: "out_item list \<Rightarrow> exec_data list" where
  "returnJsonArray output = map Json output"

definition emit :: "tstate \<Rightarrow> tstate" where
  "emit st =
     st\<lparr>trace := trace st @
          [Emit (map (\<lambda>output. if length output > 0 then returnJsonArray output else [])
                     (outputArray st))]\<rparr>"

text \<open>\<open>a || b\<close>\<close>

definition or_else :: "xv option \<Rightarrow> xv \<Rightarrow> xv" where
  "or_else a b = (case a of None \<Rightarrow> b | Some v \<Rightarrow> if truthy (Some v) then v else b)"

definition notif_type :: "xv \<Rightarrow> xv" where
  "notif_type notification =
     (let data = get_prop (Some notification) ''Data'' in
      or_else (get_prop data ''@_i:type'') (or_else (get_prop data ''type'') (XStr ''Unknown'')))"

definition known_types :: "xv list" where
  "known_types =
     [XStr ''EventRow'', XStr ''VariableState'', XStr ''AlarmInfo'', XStr ''GroupState'',
      XStr ''AreaState'', XStr ''ProtocolState'', XStr ''ServerState'']"

definition is_known :: "xv \<Rightarrow> bool" where
  "is_known notification = (notif_type notification \<in> set known_types)"

text \<open>The formatted notification and its \<open>outputIndex\<close>; \<open>None\<close> is the index \<open>-1\<close>.\<close>

definition formatNotification :: "xv \<Rightarrow> (nat \<times> out_item) option" where
  "formatNotification notification =
     (let type = notif_type notification;
          data = get_prop (Some notification) ''Data'';
          generic = Notification type (or_else data (XStr ''N/A''))
      in if type = XStr ''EventRow'' then Some (0, generic)
         else if type = XStr ''VariableState'' then Some (1, generic)
         else if type = XStr ''AlarmInfo'' then
           Some (2, AlarmNotification type
                      (or_else (get_prop data ''Alarm'') (XStr ''N/A''))
                      (or_else (get_prop data ''Description'') (XStr ''N/A'')))
         else if type = XStr ''GroupState'' then Some (3, generic)
         else if type = XStr ''AreaState'' then Some (4, generic)
         else if type = XStr ''ProtocolState'' then Some (5, generic)
         else if type = XStr ''ServerState'' then Some (7, generic)
         else None)"

text \<open>
  The \<open>forEach\<close> that pushes: \<open>outputArray[outputIndex].push\<close> throws where the array has
  no such slot, and the pushes made so far stay. The flag says whether it ran to its end.
\<close>

fun forEach_push :: "xv list \<Rightarrow> out_item list list \<Rightarrow> bool \<times> out_item list list" where
  "forEach_push [] oa = (True, oa)"
| "forEach_push (n # ns) oa =
     (case formatNotification n of
        None \<Rightarrow> forEach_push ns oa
      | Some (k, item) \<Rightarrow>
          if k < length oa then forEach_push ns (oa[k := oa ! k @ [item]]) else (False, oa))"

definition clear_except_6 :: "out_item list list \<Rightarrow> out_item list list" where
  "clear_except_6 oa = map (\<lambda>i. if i \<noteq> 6 then [] else oa ! i) [0..<length oa]"

definition handle_batch :: "xv list \<Rightarrow> tstate \<Rightarrow> tstate" where
  "handle_batch notificationArray st =
     (if length notificationArray > 0 then
        (let filteredNotifications = filter is_known notificationArray in
         if length filteredNotifications > 0 then
           (let st1 = (if isFirstTime st
                       then st\<lparr>outputArray := clear_except_6 (outputArray st),
                               isFirstTime := False\<rparr>
                       else st\<lparr>outputArray := empty_channels\<rparr>);
                (done, oa) = forEach_push filteredNotifications (outputArray st1);
                st2 = st1\<lparr>outputArray := oa\<rparr>
            in if done then emit st2 else st2)
         else st)
      else st)"

definition notification_array :: "xv \<Rightarrow> xv list" where
  "notification_array parsedData =
     (let notifications =
            get_prop (get_prop (Some parsedData) ''ArrayOfNotification'') ''Notification''
      in case notifications of
           None \<Rightarrow> []
         | Some (XArr xs) \<Rightarrow> xs
         | Some v \<Rightarrow> if truthy (Some v) then [v] else [])"

text \<open>The formatted notifications of a batch that go to channel \<open>k\<close>, in the order of
  the batch.\<close>

definition routed :: "nat \<Rightarrow> xv list \<Rightarrow> out_item list" where
  "routed k ns = map snd (filter (\<lambda>e. fst e = k) (List.map_filter formatNotification ns))"

text \<open>One iteration of the \<open>while (isActive)\<close> loop of \<open>monitorNotifications\<close>;
  \<open>parse\<close> is \<open>parser.parse\<close>, \<open>None\<close> where it throws.\<close>

definition disconnected :: "out_item list list" where
  "disconnected = empty_channels[6 := [StatusMessage ''Deconnection detected'']]"

definition poll_cycle ::
  "nat \<Rightarrow> (string \<Rightarrow> xv option) \<Rightarrow> peer \<Rightarrow> credentials \<Rightarrow> tstate \<Rightarrow> tstate outcome" where
  "poll_cycle fuel parse p cr st =
     (let (r, st1) = helpers_request p
                       \<lparr>host = ip cr, endpoint = GetNotifications,
                        session_header = sessionId st\<rparr> st
      in case r of
           Some response \<Rightarrow>
             if response \<noteq> [] \<and> trim response \<noteq> [] then
               (case parse response of
                  None \<Rightarrow> Ok st1
                | Some parsedData \<Rightarrow> Ok (handle_batch (notification_array parsedData) st1))
             else Ok st1
         | None \<Rightarrow>
             (let st2 = emit (st1\<lparr>outputArray := disconnected\<rparr>) in
              case connectToServer fuel p cr st2 of
                Ok st3 \<Rightarrow> enableNotifications p cr st3
              | Threw st3 \<Rightarrow> Threw st3
              | OutOfFuel \<Rightarrow> OutOfFuel))"

fun monitorNotifications ::
  "nat \<Rightarrow> nat \<Rightarrow> (string \<Rightarrow> xv option) \<Rightarrow> peer \<Rightarrow> credentials \<Rightarrow> tstate \<Rightarrow> tstate outcome" where
  "monitorNotifications 0 fuel parse p cr st = (if isActive st then OutOfFuel else Ok st)"
| "monitorNotifications (Suc n) fuel parse p cr st =
     (if \<not> isActive st then Ok st
      else case poll_cycle fuel parse p cr st of
             Ok st1 \<Rightarrow> monitorNotifications n fuel parse p cr st1
           | Threw st1 \<Rightarrow> Threw st1
           | OutOfFuel \<Rightarrow> OutOfFuel)"

definition cleanup :: "peer \<Rightarrow> credentials \<Rightarrow> tstate \<Rightarrow> tstate outcome" where
  "cleanup p cr st =
     (case non_empty (sessionId st) of
        None \<Rightarrow> Ok (st\<lparr>isActive := False\<rparr>)
      | Some sid \<Rightarrow>
          (let (r, st1) = helpers_request p
                            \<lparr>host = ip cr, endpoint = Close, session_header = Some sid\<rparr> st
           in case r of
                None \<Rightarrow> Threw st1
              | Some b \<Rightarrow>
                  (let st2 = st1\<lparr>outputArray :=
                                   empty_channels[6 := [StatusMessageSession
                                      ''Deconnection detected, caused by desacitvation'' sid]]\<rparr>;
                       st3 = emit st2
                   in Ok (st3\<lparr>isActive := False\<rparr>))))"

section \<open>AppvisionService.node.ts: the check that opens \<open>execute\<close>\<close>

datatype read_failure = NoSuchFile | SyntaxError

text \<open>
  The records \<open>execute\<close> returns: \<open>{error, details}\<close>, \<open>{error}\<close>,
  \<open>{success: false, error}\<close> of the outer \<open>catch\<close>, \<open>{message}\<close> and \<open>{result}\<close>.
\<close>

datatype node_result =
    ErrorDetails string read_failure
  | ErrorOnly string
  | Failed
  | Message string
  | Result "xv option"

definition read_session :: "fs \<Rightarrow> read_failure + string option" where
  "read_session f =
     (case session_file f of
        None \<Rightarrow> Inl NoSuchFile
      | Some Unparsable \<Rightarrow> Inl SyntaxError
      | Some (ObjectDoc v) \<Rightarrow> Inr None
      | Some (ArrayDoc es) \<Rightarrow>
          Inr (case es of [] \<Rightarrow> None | e # rest \<Rightarrow> non_empty (entry_sessionId e)))"

definition cannot_read :: string where
  "cannot_read = ''Impossible de lire le fichier sessionId.json''"

text \<open>The second message, with its two \<open>e\<close> acute in UTF-8.\<close>

definition no_session_id :: string where
  "no_session_id =
     ''Aucun sessionId trouv'' @ [CHR 0xC3, CHR 0xA9] @ '', veuillez v'' @
     [CHR 0xC3, CHR 0xA9] @ ''rifier votre fichier sessionId.json''"

text \<open>\<open>execute\<close> with the operation \<open>getCurrentAlarms\<close>.\<close>

definition execute_getCurrentAlarms ::
  "(string \<Rightarrow> xv option) \<Rightarrow> peer \<Rightarrow> credentials \<Rightarrow> world \<Rightarrow> node_result \<times> world" where
  "execute_getCurrentAlarms parse p cr w =
     (case read_session (files w) of
        Inl err \<Rightarrow> (ErrorDetails cannot_read err, w)
      | Inr None \<Rightarrow> (ErrorOnly no_session_id, w)
      | Inr (Some sid) \<Rightarrow>
          (let (r, w1) = helpers_request p
                           \<lparr>host = ip cr, endpoint = GetCurrentAlarms,
                            session_header = Some sid\<rparr> w
           in case r of
                None \<Rightarrow> (Failed, w1)
              | Some response \<Rightarrow>
                  (case parse response of
                     None \<Rightarrow> (Failed, w1)
                   | Some parsedData \<Rightarrow>
                       (case get_prop (Some parsedData) ''ArrayOfAlarmRow'' of
                          None \<Rightarrow> (Failed, w1)
                        | Some rows \<Rightarrow>
                            (let alarmsData = get_prop (Some rows) ''AlarmRow'' in
                             if \<not> truthy alarmsData \<or> alarmsData = Some (XArr [])
                             then (Message ''Il n'y a pas d'alarme'', w1)
                             else (Result alarmsData, w1))))))"

definition error_of :: "node_result \<Rightarrow> string option" where
  "error_of r =
     (case r of ErrorDetails e d \<Rightarrow> Some e | ErrorOnly e \<Rightarrow> Some e | _ \<Rightarrow> None)"

section \<open>Names for the requests and fan-outs of the statements\<close>

definition open_request :: "credentials \<Rightarrow> request" where
  "open_request cr = \<lparr>host = ip cr, endpoint = Open, session_header = None\<rparr>"

definition login_request :: "credentials \<Rightarrow> string option \<Rightarrow> request" where
  "login_request cr sid =
     \<lparr>host = ip cr, endpoint = Login (username cr) (password cr), session_header = sid\<rparr>"

definition start_request :: "credentials \<Rightarrow> string option \<Rightarrow> request" where
  "start_request cr sid = \<lparr>host = ip cr, endpoint = StartNotifications, session_header = sid\<rparr>"

definition filter_request :: "credentials \<Rightarrow> string option \<Rightarrow> request" where
  "filter_request cr sid =
     \<lparr>host = ip cr, endpoint = AddFilterNotifications, session_header = sid\<rparr>"

definition poll_request :: "credentials \<Rightarrow> string option \<Rightarrow> request" where
  "poll_request cr sid = \<lparr>host = ip cr, endpoint = GetNotifications, session_header = sid\<rparr>"

definition close_request :: "credentials \<Rightarrow> string option \<Rightarrow> request" where
  "close_request cr sid = \<lparr>host = ip cr, endpoint = Close, session_header = sid\<rparr>"

definition disconnect_fanout :: "exec_data list list" where
  "disconnect_fanout =
     [[], [], [], [], [], [], [Json (StatusMessage ''Deconnection detected'')], []]"

text \<open>The eight channels of a fan-out whose connection-status channel holds \<open>status\<close>
  and whose other channels hold the notifications of the batch \<open>ns\<close>.\<close>

definition channels :: "out_item list \<Rightarrow> xv list \<Rightarrow> out_item list list" where
  "channels status ns =
     [routed 0 ns, routed 1 ns, routed 2 ns, routed 3 ns, routed 4 ns, routed 5 ns,
      status, routed 7 ns]"


section \<open>Scenarios\<close>

text \<open>The variables of \<open>trigger\<close> and of the session manager as they are initialised.\<close>

definition initial_tstate :: "fs \<Rightarrow> tstate" where
  "initial_tstate f =
     \<lparr>files = f, trace = [], outputArray = [[], [], [], [], [], [], []], sessionId = None,
      isActive = True, isFirstTime = True, isConnecting = False\<rparr>"

definition initial_mstate :: "fs \<Rightarrow> mstate" where
  "initial_mstate f =
     \<lparr>files = f, trace = [], keepAliveInterval = None, stopKeepAliveTimeout = None,
      timers = [], next_handle = 0, unhandled_rejection = False\<rparr>"

definition fs_empty :: fs where
  "fs_empty = \<lparr>dir_exists = True, session_file = None, session_file_mcp = None\<rparr>"

text \<open>The session file as the trigger leaves it after a connect.\<close>

definition fs_trigger :: fs where
  "fs_trigger =
     \<lparr>dir_exists = True,
      session_file = Some (ArrayDoc [Entry (Some ''abc'') (Some ''10.0.0.5'')]),
      session_file_mcp = None\<rparr>"

definition cr0 :: credentials where
  "cr0 = \<lparr>username = ''admin'', password = ''secret'', ip = ''10.0.0.5''\<rparr>"

text \<open>The trigger once \<open>connectToServer\<close> has run against a peer that answers \<open>Open\<close>
  with the session id \<open>abc\<close>.\<close>

definition st_connected :: tstate where
  "st_connected =
     \<lparr>files = fs_trigger,
      trace = [Request (open_request cr0), Request (login_request cr0 (Some ''abc''))],
      outputArray = [[], [], [], [], [], [], [StatusMessage ''Connection successful''], []],
      sessionId = Some ''abc'', isActive = True, isFirstTime = True, isConnecting = False\<rparr>"

text \<open>Peers: one that answers every call with the session id \<open>abc\<close>; three that open
  the session \<open>xyz\<close>, the first answering \<open>Login\<close> with a sentinel in a 200 reply, the
  second without a sentinel, the third with the status 401; one that is unreachable for
  \<open>GetNotifications\<close> and refuses \<open>Login\<close> with the status 402; one that is unreachable
  for \<open>GetNotifications\<close>; one that is unreachable for \<open>Close\<close> and has nothing to
  report; one that has a heartbeat to report; one that has a batch of three to report.\<close>

definition peer_up :: peer where
  "peer_up tr rq = Http 200 ''<string>abc</string>''"

definition peer_401 :: peer where
  "peer_401 tr rq =
     (case endpoint rq of
        Login u pw \<Rightarrow> Http 200 ''<Error>401</Error>''
      | _ \<Rightarrow> Http 200 ''<string>xyz</string>'')"



definition peer_login_down :: peer where
  "peer_login_down tr rq =
     (case endpoint rq of
        GetNotifications \<Rightarrow> NetError ''ECONNRESET''
      | Login u pw \<Rightarrow> Http 402 ''Too many clients''
      | _ \<Rightarrow> Http 200 ''<string>abc</string>'')"

definition peer_poll_down :: peer where
  "peer_poll_down tr rq =
     (if endpoint rq = GetNotifications then NetError ''ECONNREFUSED''
      else Http 200 ''<string>abc</string>'')"

definition peer_close_down :: peer where
  "peer_close_down tr rq =
     (if endpoint rq = Close then NetError ''ECONNREFUSED''
      else if endpoint rq = GetNotifications then Http 200 []
      else Http 200 ''<string>abc</string>'')"

definition string_text0 :: "string \<Rightarrow> string + string option" where
  "string_text0 xml = (if xml = ''<string>xyz</string>'' then Inr (Some ''xyz'') else Inr None)"

definition alarm_A1 :: xv where
  "alarm_A1 =
     XObj [(''Data'', XObj [(''@_i:type'', XStr ''AlarmInfo''), (''Alarm'', XStr ''A1''),
                            (''Description'', XStr ''High temp'')])]"

definition heartbeat :: xv where
  "heartbeat = XObj [(''Data'', XObj [(''type'', XStr ''Heartbeat'')])]"

definition heartbeat_xml :: string where
  "heartbeat_xml =
     ''<ArrayOfNotification><Notification><Data><type>Heartbeat</type></Data>'' @
     ''</Notification></ArrayOfNotification>''"

definition peer_heartbeat :: peer where
  "peer_heartbeat tr rq =
     (if endpoint rq = GetNotifications then Http 200 heartbeat_xml
      else Http 200 ''<string>abc</string>'')"

definition event_row :: xv where
  "event_row = XObj [(''Data'', XObj [(''@_i:type'', XStr ''EventRow''), (''Id'', XNum 7)])]"

definition batch_xml :: string where
  "batch_xml = ''<ArrayOfNotification>...</ArrayOfNotification>''"

definition peer_batch :: peer where
  "peer_batch tr rq =
     (if endpoint rq = GetNotifications then Http 200 batch_xml
      else Http 200 ''<string>abc</string>'')"

definition batch_doc :: xv where
  "batch_doc =
     XObj [(''ArrayOfNotification'',
            XObj [(''Notification'', XArr [alarm_A1, heartbeat, event_row])])]"

definition parse1 :: "string \<Rightarrow> xv option" where
  "parse1 s = (if s = batch_xml then Some batch_doc else None)"

text \<open>The connected trigger after a first cycle on that batch.\<close>

definition st_after_first :: tstate where
  "st_after_first =
     st_connected
       \<lparr>trace := trace st_connected @
          [Request (poll_request cr0 (Some ''abc'')),
           Emit [[Json (Notification (XStr ''EventRow'')
                          (XObj [(''@_i:type'', XStr ''EventRow''), (''Id'', XNum 7)]))],
                 [],
                 [Json (AlarmNotification (XStr ''AlarmInfo'') (XStr ''A1'')
                          (XStr ''High temp''))],
                 [], [], [], [Json (StatusMessage ''Connection successful'')], []]],
        outputArray :=
          [[Notification (XStr ''EventRow'')
              (XObj [(''@_i:type'', XStr ''EventRow''), (''Id'', XNum 7)])],
           [],
           [AlarmNotification (XStr ''AlarmInfo'') (XStr ''A1'') (XStr ''High temp'')],
           [], [], [], [StatusMessage ''Connection successful''], []],
        isFirstTime := False\<rparr>"

definition heartbeat_batch :: xv where
  "heartbeat_batch = XObj [(''ArrayOfNotification'', XObj [(''Notification'', heartbeat)])]"

definition parse0 :: "string \<Rightarrow> xv option" where
  "parse0 s = (if s = heartbeat_xml then Some heartbeat_batch else None)"

section \<open>Substring test\<close>

lemma starts_with_iff: "starts_with s sub \<longleftrightarrow> (\<exists>q. s = sub @ q)"
  by (induction s sub rule: starts_with.induct) auto

lemma str_includes_iff: "str_includes s sub \<longleftrightarrow> (\<exists>p q. s = p @ sub @ q)"
proof (induction s)
  case Nil
  then show ?case by auto
next
  case (Cons x xs)
  show ?case
  proof
    assume "str_includes (x # xs) sub"
    then consider "starts_with (x # xs) sub" | "str_includes xs sub" by auto
    then show "\<exists>p q. x # xs = p @ sub @ q"
    proof cases
      case 1
      then obtain q where "x # xs = sub @ q" by (auto simp: starts_with_iff)
      then have "x # xs = [] @ sub @ q" by simp
      then show ?thesis by blast
    next
      case 2
      then obtain p q where "xs = p @ sub @ q" using Cons.IH by auto
      then have "x # xs = (x # p) @ sub @ q" by simp
      then show ?thesis by blast
    qed
  next
    assume "\<exists>p q. x # xs = p @ sub @ q"
    then obtain p q where pq: "x # xs = p @ sub @ q" by blast
    show "str_includes (x # xs) sub"
    proof (cases p)
      case Nil
      with pq have "starts_with (x # xs) sub" by (auto simp: starts_with_iff)
      then show ?thesis by simp
    next
      case (Cons y ys)
      with pq have "xs = ys @ sub @ q" by simp
      then have "str_includes xs sub" using Cons.IH by blast
      then show ?thesis by simp
    qed
  qed
qed

section \<open>The login-session tool\<close>


text \<open>The first sentinel of the order 401, 402, 406, 500 that a body holds decides.\<close>

lemma two_sentinels_first_wins:
  "login_result (Some ''402 406'') =
     ''Too many clients or users connected. Please try again later.''
   \<and> login_result (Some ''500 401'') = ''Unauthorized: Incorrect username or password.''"
  by (simp add: login_result_def)




section \<open>Dispatch of a batch\<close>

lemma formatNotification_index:
  "formatNotification n = Some (k, item) \<Longrightarrow> k < 8 \<and> k \<noteq> 6"
  by (auto simp: formatNotification_def Let_def split: if_splits)

lemma formatNotification_known:
  "(formatNotification n = None) = (\<not> is_known n)"
  by (simp add: formatNotification_def is_known_def known_types_def Let_def)

lemma known_if_formatted: "formatNotification n = Some e \<Longrightarrow> is_known n"
  using formatNotification_known [of n] by auto

lemma routed_Nil [simp]: "routed k [] = []"
  by (simp add: routed_def List.map_filter_simps)

lemma routed_Cons:
  "routed k (n # ns) =
     (case formatNotification n of
        None \<Rightarrow> routed k ns
      | Some (i, item) \<Rightarrow> if i = k then item # routed k ns else routed k ns)"
  by (simp add: routed_def List.map_filter_simps split: option.splits)

lemma routed_6 [simp]: "routed 6 ns = []"
  by (induction ns) (auto simp: routed_Cons split: option.splits dest: formatNotification_index)

lemma forEach_push_routed:
  "length oa = 8 \<Longrightarrow>
   forEach_push ns oa = (True, map (\<lambda>k. oa ! k @ routed k ns) [0..<8])"
proof (induction ns arbitrary: oa)
  case Nil
  then show ?case by (simp add: list_eq_iff_nth_eq)
next
  case (Cons n ns)
  show ?case
  proof (cases "formatNotification n")
    case None
    then show ?thesis using Cons by (simp add: routed_Cons)
  next
    case (Some e)
    obtain i item where e: "e = (i, item)" by (cases e)
    have i: "i < 8" using Some e formatNotification_index by blast
    have len: "length (oa[i := oa ! i @ [item]]) = 8" using Cons.prems by simp
    have "forEach_push (n # ns) oa = forEach_push ns (oa[i := oa ! i @ [item]])"
      using Some e i Cons.prems by simp
    also have "\<dots> = (True, map (\<lambda>k. (oa[i := oa ! i @ [item]]) ! k @ routed k ns) [0..<8])"
      using Cons.IH [OF len] .
    also have "map (\<lambda>k. (oa[i := oa ! i @ [item]]) ! k @ routed k ns) [0..<8]
             = map (\<lambda>k. oa ! k @ routed k (n # ns)) [0..<8]"
      using Some e i Cons.prems by (auto simp: routed_Cons nth_list_update)
    finally show ?thesis .
  qed
qed

lemma filter_known_routed: "routed k (filter is_known ns) = routed k ns"
  by (induction ns)
     (auto simp: routed_Cons formatNotification_known split: option.splits
           dest: known_if_formatted)

lemma handle_batch_filtered: "handle_batch (filter is_known ns) st = handle_batch ns st"
proof (cases "filter is_known ns = []")
  case True
  then show ?thesis by (simp add: handle_batch_def Let_def)
next
  case False
  then have "ns \<noteq> []" by auto
  with False show ?thesis by (simp add: handle_batch_def Let_def)
qed

lemma handle_batch_unknown:
  "\<forall>n \<in> set ns. \<not> is_known n \<Longrightarrow> handle_batch ns st = st"
  by (simp add: handle_batch_def Let_def filter_empty_conv)

lemma clear_except_6_8:
  "length oa = 8 \<Longrightarrow> clear_except_6 oa = [[], [], [], [], [], [], oa ! 6, []]"
  by (simp add: clear_except_6_def upt_rec numeral_eq_Suc)

lemma emit_alt:
  "emit st = st\<lparr>trace := trace st @ [Emit (map returnJsonArray (outputArray st))]\<rparr>"
proof -
  have "(\<lambda>output. if length output > 0 then returnJsonArray output else []) = returnJsonArray"
    by (rule ext) (simp add: returnJsonArray_def)
  then show ?thesis by (simp add: emit_def)
qed

lemma map_upt_8: "map f [0..<8] = [f 0, f 1, f 2, f 3, f 4, f 5, f 6, f (7::nat)]"
proof -
  have "[0..<8] = [0, 1, 2, 3, 4, 5, 6, 7::nat]" by (simp add: upt_rec)
  then show ?thesis by simp
qed

lemma push_into_channels:
  assumes "filter is_known ns \<noteq> []"
  shows "forEach_push (filter is_known ns) [[], [], [], [], [], [], status, []] =
           (True, channels status ns)"
proof -
  have "forEach_push (filter is_known ns) [[], [], [], [], [], [], status, []]
      = (True, map (\<lambda>k. [[], [], [], [], [], [], status, []] ! k @ routed k ns) [0..<8])"
    using forEach_push_routed [of "[[], [], [], [], [], [], status, []]" "filter is_known ns"]
    by (simp add: filter_known_routed)
  also have "map (\<lambda>k. [[], [], [], [], [], [], status, []] ! k @ routed k ns) [0..<8]
      = channels status ns"
    by (simp add: map_upt_8 channels_def)
  finally show ?thesis .
qed

lemma handle_batch_first:
  assumes "length (outputArray st) = 8" "filter is_known ns \<noteq> []" "isFirstTime st"
  shows "handle_batch ns st =
           st\<lparr>trace := trace st @
                 [Emit (map returnJsonArray (channels (outputArray st ! 6) ns))],
              outputArray := channels (outputArray st ! 6) ns,
              isFirstTime := False\<rparr>"
proof -
  have ne: "ns \<noteq> []" using assms(2) by auto
  show ?thesis
    using assms ne
    by (simp add: handle_batch_def Let_def clear_except_6_8 push_into_channels emit_alt)
qed

lemma handle_batch_later:
  assumes "filter is_known ns \<noteq> []" "\<not> isFirstTime st"
  shows "handle_batch ns st =
           st\<lparr>trace := trace st @ [Emit (map returnJsonArray (channels [] ns))],
              outputArray := channels [] ns\<rparr>"
proof -
  have ne: "ns \<noteq> []" using assms(1) by auto
  show ?thesis
    using assms ne
    by (simp add: handle_batch_def Let_def empty_channels_def push_into_channels emit_alt)
qed

section \<open>Connecting\<close>

lemma helpers_request_simp:
  "helpers_request p rq st =
     (request_body (p (trace st) rq), st\<lparr>trace := trace st @ [Request rq]\<rparr>)"
  by (simp add: helpers_request_def do_fetch_def)

lemma waitForServer_effect:
  "waitForServer fuel p cr st = Some (sid, st') \<Longrightarrow>
   \<exists>k c. st' = st\<lparr>trace := trace st @ replicate k (Request (open_request cr)),
                  isConnecting := c\<rparr>
        \<and> (isActive st \<longrightarrow> 0 < k \<and> sid \<noteq> None)"
proof (induction fuel arbitrary: st)
  case 0
  then have "st' = st" "\<not> isActive st" by (auto split: if_splits)
  then have "st' = st\<lparr>trace := trace st @ replicate 0 (Request (open_request cr)),
                      isConnecting := isConnecting st\<rparr>"
    by simp
  with \<open>\<not> isActive st\<close> show ?case by blast
next
  case (Suc n)
  show ?case
  proof (cases "isActive st")
    case False
    with Suc.prems have "st' = st" by simp
    then have "st' = st\<lparr>trace := trace st @ replicate 0 (Request (open_request cr)),
                        isConnecting := isConnecting st\<rparr>"
      by simp
    with False show ?thesis by blast
  next
    case True
    show ?thesis
    proof (cases "isConnecting st")
      case c: True
      with True Suc.prems have "waitForServer n p cr st = Some (sid, st')" by simp
      from Suc.IH [OF this] show ?thesis .
    next
      case nc: False
      let ?st2 = "st\<lparr>isConnecting := True, trace := trace st @ [Request (open_request cr)]\<rparr>"
      let ?r = "request_body (p (trace st) (open_request cr))"
      have step: "waitForServer (Suc n) p cr st =
          (case ?r of
             None \<Rightarrow> waitForServer n p cr (?st2\<lparr>isConnecting := False\<rparr>)
           | Some response \<Rightarrow>
               if response \<noteq> []
               then Some (Some (strip_tags response), ?st2\<lparr>isConnecting := False\<rparr>)
               else waitForServer n p cr (?st2\<lparr>isConnecting := False\<rparr>))"
        using True nc
        by (simp add: helpers_request_simp open_request_def Let_def split: option.splits)
      show ?thesis
      proof (cases "\<exists>response. ?r = Some response \<and> response \<noteq> []")
        case True
        then obtain response where r: "?r = Some response" "response \<noteq> []" by blast
        with step Suc.prems
        have "sid = Some (strip_tags response)" "st' = ?st2\<lparr>isConnecting := False\<rparr>"
          by auto
        then have "st' = st\<lparr>trace := trace st @ replicate 1 (Request (open_request cr)),
                            isConnecting := False\<rparr>"
            "sid \<noteq> None"
          by simp_all
        then show ?thesis by (metis zero_less_one)
      next
        case False
        with step Suc.prems
        have "waitForServer n p cr (?st2\<lparr>isConnecting := False\<rparr>) = Some (sid, st')"
          by (auto split: option.splits if_splits)
        from Suc.IH [OF this] obtain k c where
          k: "st' = ?st2\<lparr>isConnecting := False\<rparr>
                 \<lparr>trace := trace (?st2\<lparr>isConnecting := False\<rparr>) @
                            replicate k (Request (open_request cr)),
                  isConnecting := c\<rparr>"
          and a: "0 < k \<and> sid \<noteq> None" using \<open>isActive st\<close> by auto
        from k have "st' = st\<lparr>trace := trace st @ replicate (Suc k) (Request (open_request cr)),
                               isConnecting := c\<rparr>"
          by (simp add: replicate_app_Cons_same)
        with a show ?thesis by (metis zero_less_Suc)
      qed
    qed
  qed
qed



lemma connectToServer_Ok:
  assumes "connectToServer fuel p cr st = Ok st'"
  shows "\<exists>k c sid. st' = st\<lparr>trace := trace st @ replicate k (Request (open_request cr))
                                   @ [Request (login_request cr sid)],
                            isConnecting := c, sessionId := sid,
                            files := write_session_file sid (ip cr) (files st),
                            outputArray := [[], [], [], [], [], [],
                                            [StatusMessage ''Connection successful''], []],
                            isFirstTime := True\<rparr>
                  \<and> (isActive st \<longrightarrow> 0 < k \<and> sid \<noteq> None)"
proof -
  from assms obtain sid st1 where w: "waitForServer fuel p cr st = Some (sid, st1)"
    by (auto simp: connectToServer_def split: option.splits)
  from waitForServer_effect [OF w] obtain k c where
    st1: "st1 = st\<lparr>trace := trace st @ replicate k (Request (open_request cr)),
                    isConnecting := c\<rparr>"
    and a: "isActive st \<longrightarrow> 0 < k \<and> sid \<noteq> None" by blast
  from assms w st1 have
    "st' = st\<lparr>trace := trace st @ replicate k (Request (open_request cr))
                                   @ [Request (login_request cr sid)],
                            isConnecting := c, sessionId := sid,
                            files := write_session_file sid (ip cr) (files st),
                            outputArray := [[], [], [], [], [], [],
                                            [StatusMessage ''Connection successful''], []],
                            isFirstTime := True\<rparr>"
    by (auto simp: connectToServer_def helpers_request_simp Let_def login_request_def
          empty_channels_def split: option.splits)
  with a show ?thesis by blast
qed

lemma connectToServer_Threw:
  assumes "connectToServer fuel p cr st = Threw st'"
  shows "\<exists>rs. trace st' = trace st @ map Request rs"
proof -
  from assms obtain sid st1 where w: "waitForServer fuel p cr st = Some (sid, st1)"
    by (auto simp: connectToServer_def split: option.splits)
  from waitForServer_effect [OF w] obtain k c where
    st1: "st1 = st\<lparr>trace := trace st @ replicate k (Request (open_request cr)),
                    isConnecting := c\<rparr>"
    by blast
  from assms w st1 have
    "trace st' = trace st @ map Request (replicate k (open_request cr) @ [login_request cr sid])"
    by (auto simp: connectToServer_def helpers_request_simp Let_def login_request_def
          split: option.splits)
  then show ?thesis by blast
qed

lemma enableNotifications_Ok:
  "enableNotifications p cr st = Ok st' \<Longrightarrow>
   st' = st\<lparr>trace := trace st @ [Request (start_request cr (sessionId st)),
                                  Request (filter_request cr (sessionId st))]\<rparr>"
  by (auto simp: enableNotifications_def helpers_request_simp Let_def start_request_def
        filter_request_def split: option.splits)

lemma enableNotifications_Threw:
  assumes "enableNotifications p cr st = Threw st'"
  shows "\<exists>rs. trace st' = trace st @ map Request rs"
proof -
  from assms
  have "trace st' = trace st @ map Request [start_request cr (sessionId st)]
      \<or> trace st' = trace st @ map Request [start_request cr (sessionId st),
                                             filter_request cr (sessionId st)]"
    by (auto simp: enableNotifications_def helpers_request_simp Let_def start_request_def
        filter_request_def split: option.splits)
  then show ?thesis by blast
qed

section \<open>A polling cycle\<close>

lemma emit_disconnected:
  "emit (st\<lparr>outputArray := disconnected\<rparr>) =
     st\<lparr>outputArray := disconnected, trace := trace st @ [Emit disconnect_fanout]\<rparr>"
  by (simp add: emit_alt disconnected_def empty_channels_def returnJsonArray_def
        disconnect_fanout_def)

lemma poll_cycle_failed:
  assumes "request_body (p (trace st) (poll_request cr (sessionId st))) = None"
  shows "poll_cycle fuel parse p cr st =
          (case connectToServer fuel p cr
                  (st\<lparr>outputArray := disconnected,
                      trace := trace st @ [Request (poll_request cr (sessionId st)),
                                           Emit disconnect_fanout]\<rparr>) of
             Ok st3 \<Rightarrow> enableNotifications p cr st3
           | Threw st3 \<Rightarrow> Threw st3
           | OutOfFuel \<Rightarrow> OutOfFuel)"
  using assms
  by (simp add: poll_cycle_def helpers_request_simp Let_def emit_disconnected poll_request_def)

lemma poll_cycle_fetched:
  assumes "request_body (p (trace st) (poll_request cr (sessionId st))) = Some response"
  shows "poll_cycle fuel parse p cr st =
          (let st1 = st\<lparr>trace := trace st @ [Request (poll_request cr (sessionId st))]\<rparr> in
           if response \<noteq> [] \<and> trim response \<noteq> [] then
             (case parse response of
                None \<Rightarrow> Ok st1
              | Some parsedData \<Rightarrow> Ok (handle_batch (notification_array parsedData) st1))
           else Ok st1)"
  using assms
  by (simp add: poll_cycle_def helpers_request_simp Let_def poll_request_def)

lemma waitForServer_first_probe:
  assumes "isActive st" "\<not> isConnecting st"
      and "request_body (p (trace st) (open_request cr)) = Some b" "b \<noteq> []"
  shows "waitForServer (Suc n) p cr st =
           Some (Some (strip_tags b),
                 st\<lparr>isConnecting := True, trace := trace st @ [Request (open_request cr)],
                    isConnecting := False\<rparr>)"
  using assms by (simp add: helpers_request_simp open_request_def Let_def)

lemma connectToServer_returns:
  assumes "waitForServer fuel p cr st = Some (sid, st1)"
      and "request_body (p (trace st1) (login_request cr sid)) = Some b"
  shows "\<exists>st'. connectToServer fuel p cr st = Ok st'"
  using assms by (simp add: connectToServer_def helpers_request_simp login_request_def Let_def)

lemma enableNotifications_returns:
  assumes up: "\<And>tr rq. endpoint rq \<noteq> GetNotifications \<Longrightarrow>
                 \<exists>b. b \<noteq> [] \<and> request_body (p tr rq) = Some b"
  shows "\<exists>st'. enableNotifications p cr st = Ok st'"
proof -
  obtain b1 where b1: "request_body (p (trace st) (start_request cr (sessionId st))) = Some b1"
    using up [of "start_request cr (sessionId st)" "trace st"]
    by (auto simp: start_request_def)
  obtain b2 where b2:
    "request_body (p (trace st @ [Request (start_request cr (sessionId st))])
       (filter_request cr (sessionId st))) = Some b2"
    using up [of "filter_request cr (sessionId st)"
                 "trace st @ [Request (start_request cr (sessionId st))]"]
    by (auto simp: filter_request_def)
  from b1 b2 show ?thesis
    by (simp add: enableNotifications_def helpers_request_simp Let_def start_request_def
          filter_request_def)
qed

lemma poll_cycle_returns_when_peer_answers:
  assumes up: "\<And>tr rq. endpoint rq \<noteq> GetNotifications \<Longrightarrow>
                 \<exists>b. b \<noteq> [] \<and> request_body (p tr rq) = Some b"
      and active: "isActive st" and idle: "\<not> isConnecting st"
      and failed: "request_body (p (trace st) (poll_request cr (sessionId st))) = None"
  shows "\<exists>st'. poll_cycle (Suc n) parse p cr st = Ok st'"
proof -
  let ?st2 = "st\<lparr>outputArray := disconnected,
                      trace := trace st @ [Request (poll_request cr (sessionId st)),
                                           Emit disconnect_fanout]\<rparr>"
  obtain b1 where b1: "b1 \<noteq> []" "request_body (p (trace ?st2) (open_request cr)) = Some b1"
    using up [of "open_request cr" "trace ?st2"] by (auto simp: open_request_def)
  have w: "waitForServer (Suc n) p cr ?st2 =
           Some (Some (strip_tags b1),
                 ?st2\<lparr>isConnecting := True,
                       trace := trace ?st2 @ [Request (open_request cr)],
                       isConnecting := False\<rparr>)"
    using active idle b1 by (intro waitForServer_first_probe) simp_all
  obtain b2 where
    "request_body (p (trace (?st2\<lparr>isConnecting := True,
                       trace := trace ?st2 @ [Request (open_request cr)],
                       isConnecting := False\<rparr>))
       (login_request cr (Some (strip_tags b1)))) = Some b2"
    using up [of "login_request cr (Some (strip_tags b1))"] by (auto simp: login_request_def)
  from connectToServer_returns [OF w this]
  obtain st3 where c: "connectToServer (Suc n) p cr ?st2 = Ok st3" by blast
  from enableNotifications_returns [of p cr st3] up
  obtain st' where "enableNotifications p cr st3 = Ok st'" by blast
  with c show ?thesis
    by (simp add: poll_cycle_failed [where p = p and st = st and cr = cr, OF failed])
qed

text \<open>
  Claim C9. When the fetch succeeds and every entry of the parsed batch has a type
  discriminator (\<open>Data["@_i:type"] || Data.type || "Unknown"\<close>) outside the known types,
  the cycle ends normally and leaves the trigger as it was but for the request it sent:
  nothing is emitted, no channel changes, nothing is thrown. In any batch the
  unknown-typed entries are dropped: the batch is handled exactly as the batch without
  them.
\<close>

theorem unknown_types_are_dropped:
  assumes fetched: "request_body (p (trace st) (poll_request cr (sessionId st))) = Some response"
      and parsed: "parse response = Some parsedData"
      and unknown: "\<forall>n \<in> set (notification_array parsedData). notif_type n \<notin> set known_types"
  shows "poll_cycle fuel parse p cr st =
           Ok (st\<lparr>trace := trace st @ [Request (poll_request cr (sessionId st))]\<rparr>)
       \<and> handle_batch ns st' =
           handle_batch (filter (\<lambda>n. notif_type n \<in> set known_types) ns) st'"
proof
  have "handle_batch (notification_array parsedData)
          (st\<lparr>trace := trace st @ [Request (poll_request cr (sessionId st))]\<rparr>)
        = st\<lparr>trace := trace st @ [Request (poll_request cr (sessionId st))]\<rparr>"
    using unknown by (intro handle_batch_unknown) (simp add: is_known_def)
  then show "poll_cycle fuel parse p cr st =
           Ok (st\<lparr>trace := trace st @ [Request (poll_request cr (sessionId st))]\<rparr>)"
    using parsed
    by (simp add: poll_cycle_fetched [where p = p and st = st and cr = cr, OF fetched] Let_def)
next
  have "is_known = (\<lambda>n. notif_type n \<in> set known_types)"
    by (rule ext) (simp add: is_known_def)
  then have "filter (\<lambda>n. notif_type n \<in> set known_types) ns = filter is_known ns"
    by simp
  then show "handle_batch ns st' =
           handle_batch (filter (\<lambda>n. notif_type n \<in> set known_types) ns) st'"
    by (simp add: handle_batch_filtered)
qed

theorem unknown_types_are_dropped_witness:
  "request_body (peer_heartbeat (trace st_connected) (poll_request cr0 (sessionId st_connected)))
     = Some heartbeat_xml
   \<and> parse0 heartbeat_xml = Some heartbeat_batch
   \<and> notification_array heartbeat_batch = [heartbeat]
   \<and> notif_type heartbeat = XStr ''Heartbeat''
   \<and> XStr ''Heartbeat'' \<notin> set known_types
   \<and> poll_cycle 1 parse0 peer_heartbeat cr0 st_connected =
       Ok (st_connected\<lparr>trace := trace st_connected @
                                   [Request (poll_request cr0 (sessionId st_connected))]\<rparr>)"
proof -
  have f: "request_body (peer_heartbeat (trace st_connected)
              (poll_request cr0 (sessionId st_connected))) = Some heartbeat_xml"
    by (simp add: request_body_def peer_heartbeat_def poll_request_def)
  have q: "parse0 heartbeat_xml = Some heartbeat_batch" by (simp add: parse0_def)
  have a: "notification_array heartbeat_batch = [heartbeat]"
    by (simp add: notification_array_def heartbeat_batch_def heartbeat_def)
  have t: "notif_type heartbeat = XStr ''Heartbeat''"
    by (simp add: notif_type_def heartbeat_def or_else_def)
  have k: "XStr ''Heartbeat'' \<notin> set known_types" by (simp add: known_types_def)
  have u: "\<forall>n \<in> set (notification_array heartbeat_batch). notif_type n \<notin> set known_types"
    using a t k by simp
  from unknown_types_are_dropped
         [where p = peer_heartbeat and st = st_connected and cr = cr0 and parse = parse0
            and fuel = 1, OF f q u]
  have "poll_cycle 1 parse0 peer_heartbeat cr0 st_connected =
       Ok (st_connected\<lparr>trace := trace st_connected @
                                   [Request (poll_request cr0 (sessionId st_connected))]\<rparr>)"
    by blast
  with f q a t k show ?thesis by blast
qed

lemma trim_Nil: "trim [] = []"
  by (simp add: trim_def js_white_space_def)

lemma is_known_object: "is_known v \<Longrightarrow> \<exists>kvs. v = XObj kvs"
  by (cases v) (simp_all add: is_known_def notif_type_def or_else_def known_types_def)

lemma notification_array_entries:
  assumes "get_prop (get_prop (Some parsedData) ''ArrayOfNotification'') ''Notification'' = Some v"
      and "case v of XArr xs \<Rightarrow> ns = xs | _ \<Rightarrow> ns = [v]"
      and "filter is_known ns \<noteq> []"
  shows "notification_array parsedData = ns"
proof (cases "\<exists>xs. v = XArr xs")
  case True
  with assms(1,2) show ?thesis by (auto simp: notification_array_def)
next
  case False
  with assms(2) have ns: "ns = [v]" by (cases v) simp_all
  with assms(3) have "is_known v" by (simp split: if_splits)
  then obtain kvs where "v = XObj kvs" using is_known_object by blast
  with assms(1) ns show ?thesis by (simp add: notification_array_def)
qed

lemma poll_cycle_batch:
  assumes fetched: "request_body (p (trace st) (poll_request cr (sessionId st))) = Some response"
      and nonblank: "trim response \<noteq> []"
      and parsed: "parse response = Some parsedData"
      and batch: "get_prop (get_prop (Some parsedData) ''ArrayOfNotification'') ''Notification''
                    = Some v"
      and entries: "case v of XArr xs \<Rightarrow> ns = xs | _ \<Rightarrow> ns = [v]"
      and known: "filter is_known ns \<noteq> []"
  shows "poll_cycle fuel parse p cr st =
           Ok (handle_batch ns
                 (st\<lparr>trace := trace st @ [Request (poll_request cr (sessionId st))]\<rparr>))"
proof -
  have "response \<noteq> []" using nonblank trim_Nil by auto
  then show ?thesis
    using nonblank parsed notification_array_entries [OF batch entries known]
    by (simp add: poll_cycle_fetched [where p = p and st = st and cr = cr, OF fetched] Let_def)
qed

text \<open>
  Claim C3. \<open>connectToServer\<close> leaves \<open>Connection successful\<close> alone on channel 6 and
  sets \<open>isFirstTime\<close>, and so does a cycle that reconnects after a failed fetch. A cycle
  that fetches a reply, parses it and finds in it notifications (an array of them, or a
  single one) with a known-typed one among them ends normally after one emission. While \<open>isFirstTime\<close> is
  set (the first such batch after a connect), the fan-out has on channel 6 what the
  channel held and on the other channels the notifications of this batch only, and
  \<open>isFirstTime\<close> is cleared. In every later such cycle the fan-out has channel 6 empty
  and on the other channels the notifications of that batch only.
\<close>

theorem first_batch_keeps_connection_status:
  assumes fetched: "request_body (p (trace st) (poll_request cr (sessionId st))) = Some response"
      and nonblank: "trim response \<noteq> []"
      and parsed: "parse response = Some parsedData"
      and batch: "get_prop (get_prop (Some parsedData) ''ArrayOfNotification'') ''Notification''
                    = Some v"
      and entries: "case v of XArr xs \<Rightarrow> ns = xs | _ \<Rightarrow> ns = [v]"
      and known: "filter is_known ns \<noteq> []"
  shows "(connectToServer fuel' p' cr st0 = Ok st1 \<longrightarrow>
            isFirstTime st1 \<and>
            outputArray st1 =
              [[], [], [], [], [], [], [StatusMessage ''Connection successful''], []])
       \<and> (request_body (p' (trace st0) (poll_request cr (sessionId st0))) = None \<and>
          poll_cycle fuel' parse' p' cr st0 = Ok st2 \<longrightarrow>
            isFirstTime st2 \<and>
            outputArray st2 =
              [[], [], [], [], [], [], [StatusMessage ''Connection successful''], []])
       \<and> (isFirstTime st \<and> length (outputArray st) = 8 \<longrightarrow>
            poll_cycle fuel parse p cr st =
              Ok (st\<lparr>trace := trace st @
                       [Request (poll_request cr (sessionId st)),
                        Emit (map returnJsonArray (channels (outputArray st ! 6) ns))],
                     outputArray := channels (outputArray st ! 6) ns,
                     isFirstTime := False\<rparr>))
       \<and> (\<not> isFirstTime st \<longrightarrow>
            poll_cycle fuel parse p cr st =
              Ok (st\<lparr>trace := trace st @
                       [Request (poll_request cr (sessionId st)),
                        Emit (map returnJsonArray (channels [] ns))],
                     outputArray := channels [] ns\<rparr>))"
proof (intro conjI impI)
  assume "connectToServer fuel' p' cr st0 = Ok st1"
  from connectToServer_Ok [OF this]
  show "isFirstTime st1"
    and "outputArray st1 =
           [[], [], [], [], [], [], [StatusMessage ''Connection successful''], []]"
    by auto
next
  assume a: "request_body (p' (trace st0) (poll_request cr (sessionId st0))) = None \<and>
          poll_cycle fuel' parse' p' cr st0 = Ok st2"
  then obtain st3 where c: "connectToServer fuel' p' cr
                  (st0\<lparr>outputArray := disconnected,
                      trace := trace st0 @ [Request (poll_request cr (sessionId st0)),
                                           Emit disconnect_fanout]\<rparr>) = Ok st3"
      and e: "enableNotifications p' cr st3 = Ok st2"
    by (auto simp: poll_cycle_failed [where p = p' and st = st0 and cr = cr]
          split: outcome.splits)
  from connectToServer_Ok [OF c] enableNotifications_Ok [OF e]
  show "isFirstTime st2"
    and "outputArray st2 =
           [[], [], [], [], [], [], [StatusMessage ''Connection successful''], []]"
    by auto
next
  let ?st1 = "st\<lparr>trace := trace st @ [Request (poll_request cr (sessionId st))]\<rparr>"
  assume "isFirstTime st \<and> length (outputArray st) = 8"
  then have "handle_batch ns ?st1 =
              ?st1\<lparr>trace := trace ?st1 @
                    [Emit (map returnJsonArray (channels (outputArray ?st1 ! 6) ns))],
                 outputArray := channels (outputArray ?st1 ! 6) ns,
                 isFirstTime := False\<rparr>"
    using known by (intro handle_batch_first) simp_all
  then show "poll_cycle fuel parse p cr st =
              Ok (st\<lparr>trace := trace st @
                       [Request (poll_request cr (sessionId st)),
                        Emit (map returnJsonArray (channels (outputArray st ! 6) ns))],
                     outputArray := channels (outputArray st ! 6) ns,
                     isFirstTime := False\<rparr>)"
    by (simp add: poll_cycle_batch [where p = p and st = st and cr = cr and parse = parse
                                      and response = response and parsedData = parsedData,
                                    OF fetched nonblank parsed batch entries known])
next
  let ?st1 = "st\<lparr>trace := trace st @ [Request (poll_request cr (sessionId st))]\<rparr>"
  assume "\<not> isFirstTime st"
  then have "handle_batch ns ?st1 =
              ?st1\<lparr>trace := trace ?st1 @ [Emit (map returnJsonArray (channels [] ns))],
                 outputArray := channels [] ns\<rparr>"
    using known by (intro handle_batch_later) simp_all
  then show "poll_cycle fuel parse p cr st =
              Ok (st\<lparr>trace := trace st @
                       [Request (poll_request cr (sessionId st)),
                        Emit (map returnJsonArray (channels [] ns))],
                     outputArray := channels [] ns\<rparr>)"
    by (simp add: poll_cycle_batch [where p = p and st = st and cr = cr and parse = parse
                                      and response = response and parsedData = parsedData,
                                    OF fetched nonblank parsed batch entries known])
qed

theorem first_batch_keeps_connection_status_witness:
  "connectToServer 1 peer_batch cr0 (initial_tstate fs_empty) = Ok st_connected
   \<and> request_body (peer_batch (trace st_connected) (poll_request cr0 (sessionId st_connected)))
       = Some batch_xml
   \<and> request_body (peer_batch (trace st_after_first)
                     (poll_request cr0 (sessionId st_after_first))) = Some batch_xml
   \<and> trim batch_xml \<noteq> []
   \<and> parse1 batch_xml = Some batch_doc
   \<and> get_prop (get_prop (Some batch_doc) ''ArrayOfNotification'') ''Notification''
       = Some (XArr [alarm_A1, heartbeat, event_row])
   \<and> filter is_known [alarm_A1, heartbeat, event_row] = [alarm_A1, event_row]
   \<and> isFirstTime st_connected \<and> length (outputArray st_connected) = 8
   \<and> poll_cycle 1 parse1 peer_batch cr0 st_connected = Ok st_after_first
   \<and> \<not> isFirstTime st_after_first
   \<and> poll_cycle 1 parse1 peer_batch cr0 st_after_first =
       Ok (st_after_first
             \<lparr>trace := trace st_after_first @
                [Request (poll_request cr0 (Some ''abc'')),
                 Emit [[Json (Notification (XStr ''EventRow'')
                                (XObj [(''@_i:type'', XStr ''EventRow''), (''Id'', XNum 7)]))],
                       [],
                       [Json (AlarmNotification (XStr ''AlarmInfo'') (XStr ''A1'')
                                (XStr ''High temp''))],
                       [], [], [], [], []]],
              outputArray :=
                [[Notification (XStr ''EventRow'')
                    (XObj [(''@_i:type'', XStr ''EventRow''), (''Id'', XNum 7)])],
                 [],
                 [AlarmNotification (XStr ''AlarmInfo'') (XStr ''A1'') (XStr ''High temp'')],
                 [], [], [], [], []]\<rparr>)"
proof -
  have c: "connectToServer 1 peer_batch cr0 (initial_tstate fs_empty) = Ok st_connected"
    by (simp add: connectToServer_def initial_tstate_def fs_empty_def peer_batch_def cr0_def
          helpers_request_simp request_body_def Let_def write_session_file_def
          st_connected_def fs_trigger_def open_request_def login_request_def
          empty_channels_def)
  have f: "request_body (peer_batch (trace st_connected)
              (poll_request cr0 (sessionId st_connected))) = Some batch_xml"
    by (simp add: request_body_def peer_batch_def poll_request_def)
  have f2: "request_body (peer_batch (trace st_after_first)
              (poll_request cr0 (sessionId st_after_first))) = Some batch_xml"
    by (simp add: request_body_def peer_batch_def poll_request_def)
  have t: "trim batch_xml \<noteq> []" by (simp add: trim_def js_white_space_def batch_xml_def)
  have q: "parse1 batch_xml = Some batch_doc" by (simp add: parse1_def)
  have b: "get_prop (get_prop (Some batch_doc) ''ArrayOfNotification'') ''Notification''
       = Some (XArr [alarm_A1, heartbeat, event_row])"
    by (simp add: batch_doc_def)
  have k: "filter is_known [alarm_A1, heartbeat, event_row] = [alarm_A1, event_row]"
    by (simp add: is_known_def notif_type_def alarm_A1_def heartbeat_def event_row_def
          or_else_def known_types_def)
  then have k': "filter is_known [alarm_A1, heartbeat, event_row] \<noteq> []" by simp
  have en: "case XArr [alarm_A1, heartbeat, event_row] of
              XArr xs \<Rightarrow> [alarm_A1, heartbeat, event_row] = xs
            | _ \<Rightarrow> [alarm_A1, heartbeat, event_row] = [XArr [alarm_A1, heartbeat, event_row]]"
    by simp
  have i: "isFirstTime st_connected \<and> length (outputArray st_connected) = 8"
    by (simp add: st_connected_def)
  have i2: "\<not> isFirstTime st_after_first" by (simp add: st_after_first_def)
  have ch: "channels s [alarm_A1, heartbeat, event_row] =
      [[Notification (XStr ''EventRow'')
          (XObj [(''@_i:type'', XStr ''EventRow''), (''Id'', XNum 7)])],
       [],
       [AlarmNotification (XStr ''AlarmInfo'') (XStr ''A1'') (XStr ''High temp'')],
       [], [], [], s, []]" for s
    by (simp add: channels_def routed_def List.map_filter_simps formatNotification_def
          alarm_A1_def heartbeat_def event_row_def notif_type_def or_else_def Let_def)
  have s6: "outputArray st_connected ! 6 = [StatusMessage ''Connection successful'']"
    and sid: "sessionId st_connected = Some ''abc''"
    by (simp_all add: st_connected_def)
  have sid2: "sessionId st_after_first = Some ''abc''"
    by (simp add: st_after_first_def st_connected_def)
  from first_batch_keeps_connection_status
         [where p = peer_batch and st = st_connected and cr = cr0 and parse = parse1
            and fuel = 1, OF f t q b en k'] i
  have "poll_cycle 1 parse1 peer_batch cr0 st_connected =
              Ok (st_connected\<lparr>trace := trace st_connected @
                       [Request (poll_request cr0 (sessionId st_connected)),
                        Emit (map returnJsonArray
                               (channels (outputArray st_connected ! 6)
                                  [alarm_A1, heartbeat, event_row]))],
                     outputArray := channels (outputArray st_connected ! 6)
                                      [alarm_A1, heartbeat, event_row],
                     isFirstTime := False\<rparr>)"
    by blast
  then have first: "poll_cycle 1 parse1 peer_batch cr0 st_connected = Ok st_after_first"
    by (simp add: ch s6 sid returnJsonArray_def st_after_first_def)
  from first_batch_keeps_connection_status
         [where p = peer_batch and st = st_after_first and cr = cr0 and parse = parse1
            and fuel = 1, OF f2 t q b en k'] i2
  have "poll_cycle 1 parse1 peer_batch cr0 st_after_first =
              Ok (st_after_first\<lparr>trace := trace st_after_first @
                       [Request (poll_request cr0 (sessionId st_after_first)),
                        Emit (map returnJsonArray
                               (channels [] [alarm_A1, heartbeat, event_row]))],
                     outputArray := channels [] [alarm_A1, heartbeat, event_row]\<rparr>)"
    by blast
  then have later: "poll_cycle 1 parse1 peer_batch cr0 st_after_first =
       Ok (st_after_first
             \<lparr>trace := trace st_after_first @
                [Request (poll_request cr0 (Some ''abc'')),
                 Emit [[Json (Notification (XStr ''EventRow'')
                                (XObj [(''@_i:type'', XStr ''EventRow''), (''Id'', XNum 7)]))],
                       [],
                       [Json (AlarmNotification (XStr ''AlarmInfo'') (XStr ''A1'')
                                (XStr ''High temp''))],
                       [], [], [], [], []]],
              outputArray :=
                [[Notification (XStr ''EventRow'')
                    (XObj [(''@_i:type'', XStr ''EventRow''), (''Id'', XNum 7)])],
                 [],
                 [AlarmNotification (XStr ''AlarmInfo'') (XStr ''A1'') (XStr ''High temp'')],
                 [], [], [], [], []]\<rparr>)"
    by (simp add: ch sid2 returnJsonArray_def)
  from c f f2 t q b k i first i2 later show ?thesis by blast
qed

text \<open>
  What a cycle does when its \<open>GetNotifications\<close> fetch fails. The first thing after the
  failed request is to emit one fan-out with only channel 6 populated, by
  \<open>Deconnection detected\<close>; everything afterwards is requests to the peer. When the
  cycle comes back, these are the \<open>Open\<close> probes of \<open>connectToServer\<close> (at least one),
  its \<open>Login\<close>, then the \<open>StartNotifications\<close> and \<open>AddFilterNotifications\<close> of
  \<open>enableNotifications\<close> under the new session id, and the trigger is still active. The
  cycle does come back, at the first probe, when the peer answers every call but
  \<open>GetNotifications\<close>; the loop then goes on with the next cycle.
\<close>

lemma poll_failure_emits_disconnect_then_reconnects:
  assumes active: "isActive st"
      and failed: "request_body (p (trace st) (poll_request cr (sessionId st))) = None"
  shows "(\<forall>st'. poll_cycle fuel parse p cr st = Ok st' \<longrightarrow>
            (\<exists>k sid. 0 < k \<and>
               trace st' =
                 trace st @ [Request (poll_request cr (sessionId st)), Emit disconnect_fanout]
                  @ replicate k (Request (open_request cr))
                  @ [Request (login_request cr (Some sid)), Request (start_request cr (Some sid)),
                     Request (filter_request cr (Some sid))]
               \<and> sessionId st' = Some sid) \<and> isActive st')
       \<and> (\<forall>st'. poll_cycle fuel parse p cr st = Threw st' \<longrightarrow>
            (\<exists>rs. trace st' =
                 trace st @ [Request (poll_request cr (sessionId st)), Emit disconnect_fanout]
                  @ map Request rs))
       \<and> ((\<forall>tr rq. endpoint rq \<noteq> GetNotifications \<longrightarrow>
              (\<exists>b. b \<noteq> [] \<and> request_body (p tr rq) = Some b)) \<and> \<not> isConnecting st \<longrightarrow>
            (\<exists>st'. poll_cycle (Suc n) parse p cr st = Ok st'))"
    (is "?returned \<and> ?thrown \<and> ?returns")
proof -
  let ?st2 = "st\<lparr>outputArray := disconnected,
                      trace := trace st @ [Request (poll_request cr (sessionId st)),
                                           Emit disconnect_fanout]\<rparr>"
  have returned: ?returned
  proof (intro allI impI)
    fix st'
    assume ok: "poll_cycle fuel parse p cr st = Ok st'"
    then obtain st3 where c: "connectToServer fuel p cr ?st2 = Ok st3"
        and e: "enableNotifications p cr st3 = Ok st'"
      by (auto simp: poll_cycle_failed [where p = p and st = st and cr = cr, OF failed]
            split: outcome.splits)
    from connectToServer_Ok [OF c] active obtain k c' sid where
      st3: "st3 = ?st2\<lparr>trace := trace ?st2 @ replicate k (Request (open_request cr))
                                     @ [Request (login_request cr sid)],
                              isConnecting := c', sessionId := sid,
                              files := write_session_file sid (ip cr) (files ?st2),
                              outputArray := [[], [], [], [], [], [],
                                              [StatusMessage ''Connection successful''], []],
                              isFirstTime := True\<rparr>"
      and k: "0 < k" and sid: "sid \<noteq> None" by auto
    from sid obtain s where s: "sid = Some s" by auto
    from enableNotifications_Ok [OF e] st3 s have
      "trace st' = trace st @ [Request (poll_request cr (sessionId st)), Emit disconnect_fanout]
                    @ replicate k (Request (open_request cr))
                    @ [Request (login_request cr (Some s)), Request (start_request cr (Some s)),
                       Request (filter_request cr (Some s))]"
      "sessionId st' = Some s" "isActive st' = isActive st"
      by simp_all
    with k active show "(\<exists>k sid. 0 < k \<and>
                 trace st' =
                   trace st @ [Request (poll_request cr (sessionId st)), Emit disconnect_fanout]
                    @ replicate k (Request (open_request cr))
                    @ [Request (login_request cr (Some sid)),
                       Request (start_request cr (Some sid)),
                       Request (filter_request cr (Some sid))]
                 \<and> sessionId st' = Some sid) \<and> isActive st'" by blast
  qed
  have thrown: ?thrown
  proof (intro allI impI)
    fix st'
    assume thr: "poll_cycle fuel parse p cr st = Threw st'"
    then consider "connectToServer fuel p cr ?st2 = Threw st'"
      | st3 where "connectToServer fuel p cr ?st2 = Ok st3"
          "enableNotifications p cr st3 = Threw st'"
      by (auto simp: poll_cycle_failed [where p = p and st = st and cr = cr, OF failed]
            split: outcome.splits)
    then show "\<exists>rs. trace st' =
                   trace st @ [Request (poll_request cr (sessionId st)), Emit disconnect_fanout]
                    @ map Request rs"
    proof cases
      case 1
      from connectToServer_Threw [OF 1] show ?thesis by simp
    next
      case 2
      from connectToServer_Ok [OF 2(1)] obtain k sid where
        "trace st3 = trace ?st2 @ replicate k (Request (open_request cr))
                       @ [Request (login_request cr sid)]"
        by auto
      then have "trace st3 =
          trace ?st2 @ map Request (replicate k (open_request cr) @ [login_request cr sid])"
        by simp
      then obtain rs1 where "trace st3 = trace ?st2 @ map Request rs1" by blast
      moreover from enableNotifications_Threw [OF 2(2)] obtain rs2 where
        "trace st' = trace st3 @ map Request rs2" by blast
      ultimately have "trace st' =
          trace st @ [Request (poll_request cr (sessionId st)), Emit disconnect_fanout]
                    @ map Request (rs1 @ rs2)" by simp
      then show ?thesis by blast
    qed
  qed
  have returns: ?returns
  proof
    assume a: "(\<forall>tr rq. endpoint rq \<noteq> GetNotifications \<longrightarrow>
              (\<exists>b. b \<noteq> [] \<and> request_body (p tr rq) = Some b)) \<and> \<not> isConnecting st"
    then have up: "\<And>tr rq. endpoint rq \<noteq> GetNotifications \<Longrightarrow>
                 \<exists>b. b \<noteq> [] \<and> request_body (p tr rq) = Some b" by blast
    from a have idle: "\<not> isConnecting st" by blast
    from up active idle failed show "\<exists>st'. poll_cycle (Suc n) parse p cr st = Ok st'"
      by (rule poll_cycle_returns_when_peer_answers)
  qed
  from returned thrown returns show ?thesis by (intro conjI)
qed

lemma poll_failure_emits_disconnect_then_reconnects_example:
  "isActive st_connected
   \<and> request_body (peer_poll_down (trace st_connected)
                    (poll_request cr0 (sessionId st_connected))) = None
   \<and> poll_cycle 1 parse0 peer_poll_down cr0 st_connected =
       Ok (st_connected
             \<lparr>trace := trace st_connected @
                [Request (poll_request cr0 (Some ''abc'')), Emit disconnect_fanout,
                 Request (open_request cr0), Request (login_request cr0 (Some ''abc'')),
                 Request (start_request cr0 (Some ''abc'')),
                 Request (filter_request cr0 (Some ''abc''))]\<rparr>)
   \<and> (\<exists>k sid. 0 < k \<and>
         trace st_connected @
                [Request (poll_request cr0 (Some ''abc'')), Emit disconnect_fanout,
                 Request (open_request cr0), Request (login_request cr0 (Some ''abc'')),
                 Request (start_request cr0 (Some ''abc'')),
                 Request (filter_request cr0 (Some ''abc''))] =
         trace st_connected @
           [Request (poll_request cr0 (sessionId st_connected)), Emit disconnect_fanout]
            @ replicate k (Request (open_request cr0))
            @ [Request (login_request cr0 (Some sid)), Request (start_request cr0 (Some sid)),
               Request (filter_request cr0 (Some sid))])"
proof -
  have a: "isActive st_connected" by (simp add: st_connected_def)
  have f: "request_body (peer_poll_down (trace st_connected)
                    (poll_request cr0 (sessionId st_connected))) = None"
    by (simp add: request_body_def peer_poll_down_def poll_request_def)
  have e: "poll_cycle 1 parse0 peer_poll_down cr0 st_connected =
       Ok (st_connected
             \<lparr>trace := trace st_connected @
                [Request (poll_request cr0 (Some ''abc'')), Emit disconnect_fanout,
                 Request (open_request cr0), Request (login_request cr0 (Some ''abc'')),
                 Request (start_request cr0 (Some ''abc'')),
                 Request (filter_request cr0 (Some ''abc''))]\<rparr>)"
    by (simp add: poll_cycle_def peer_poll_down_def cr0_def st_connected_def
          helpers_request_simp request_body_def Let_def emit_alt returnJsonArray_def
          disconnect_fanout_def connectToServer_def enableNotifications_def
          write_session_file_def fs_trigger_def empty_channels_def disconnected_def
          poll_request_def open_request_def login_request_def start_request_def
          filter_request_def)
  let ?st' = "st_connected
             \<lparr>trace := trace st_connected @
                [Request (poll_request cr0 (Some ''abc'')), Emit disconnect_fanout,
                 Request (open_request cr0), Request (login_request cr0 (Some ''abc'')),
                 Request (start_request cr0 (Some ''abc'')),
                 Request (filter_request cr0 (Some ''abc''))]\<rparr>"
  from poll_failure_emits_disconnect_then_reconnects
         [where p = peer_poll_down and st = st_connected and cr = cr0 and parse = parse0
            and fuel = 1, OF a f]
  have "\<forall>st'. poll_cycle 1 parse0 peer_poll_down cr0 st_connected = Ok st' \<longrightarrow>
            (\<exists>k sid. 0 < k \<and>
               trace st' =
                 trace st_connected @
                   [Request (poll_request cr0 (sessionId st_connected)), Emit disconnect_fanout]
                  @ replicate k (Request (open_request cr0))
                  @ [Request (login_request cr0 (Some sid)),
                     Request (start_request cr0 (Some sid)),
                     Request (filter_request cr0 (Some sid))]
               \<and> sessionId st' = Some sid) \<and> isActive st'"
    by (rule conjunct1)
  with e have "\<exists>k sid. 0 < k \<and>
               trace ?st' =
                 trace st_connected @
                   [Request (poll_request cr0 (sessionId st_connected)), Emit disconnect_fanout]
                  @ replicate k (Request (open_request cr0))
                  @ [Request (login_request cr0 (Some sid)),
                     Request (start_request cr0 (Some sid)),
                     Request (filter_request cr0 (Some sid))]
               \<and> sessionId ?st' = Some sid"
    by blast
  then have "\<exists>k sid. 0 < k \<and>
         trace st_connected @
                [Request (poll_request cr0 (Some ''abc'')), Emit disconnect_fanout,
                 Request (open_request cr0), Request (login_request cr0 (Some ''abc'')),
                 Request (start_request cr0 (Some ''abc'')),
                 Request (filter_request cr0 (Some ''abc''))] =
         trace st_connected @
           [Request (poll_request cr0 (sessionId st_connected)), Emit disconnect_fanout]
            @ replicate k (Request (open_request cr0))
            @ [Request (login_request cr0 (Some sid)), Request (start_request cr0 (Some sid)),
               Request (filter_request cr0 (Some sid))]"
    by auto
  with a f e show ?thesis by blast
qed

lemma monitor_resumes_after_cycle:
  assumes "isActive st" and "poll_cycle fuel parse p cr st = Ok st'"
  shows "monitorNotifications (Suc n) fuel parse p cr st =
           monitorNotifications n fuel parse p cr st'"
  using assms by simp

lemma monitor_ends_with_cycle:
  assumes "isActive st" and "poll_cycle fuel parse p cr st = Threw st'"
  shows "monitorNotifications (Suc n) fuel parse p cr st = Threw st'"
  using assms by simp

text \<open>
  Claim C2 (the code at the failing input). The trigger is connected under the session
  \<open>abc\<close>; the peer is unreachable for \<open>GetNotifications\<close>, answers \<open>Open\<close>, and refuses
  \<open>Login\<close> with the status 402. The cycle emits the fan-out with
  \<open>Deconnection detected\<close> on channel 6, probes \<open>Open\<close> and sends \<open>Login\<close>, whose
  rejection nothing catches: \<open>enableNotifications\<close> is not called (no
  \<open>StartNotifications\<close>, no \<open>AddFilterNotifications\<close>), and \<open>monitorNotifications\<close> ends
  there with that exception, however many iterations it is allowed: polling does not
  resume.
\<close>

theorem reconnect_login_failure_ends_polling:
  "poll_cycle 1 parse0 peer_login_down cr0 st_connected =
     Threw (st_connected
              \<lparr>outputArray :=
                 [[], [], [], [], [], [], [StatusMessage ''Deconnection detected''], []],
               trace := trace st_connected @
                 [Request (poll_request cr0 (Some ''abc'')), Emit disconnect_fanout,
                  Request (open_request cr0), Request (login_request cr0 (Some ''abc''))]\<rparr>)
   \<and> monitorNotifications 5 1 parse0 peer_login_down cr0 st_connected =
     Threw (st_connected
              \<lparr>outputArray :=
                 [[], [], [], [], [], [], [StatusMessage ''Deconnection detected''], []],
               trace := trace st_connected @
                 [Request (poll_request cr0 (Some ''abc'')), Emit disconnect_fanout,
                  Request (open_request cr0), Request (login_request cr0 (Some ''abc''))]\<rparr>)"
proof -
  have c: "poll_cycle 1 parse0 peer_login_down cr0 st_connected =
     Threw (st_connected
              \<lparr>outputArray :=
                 [[], [], [], [], [], [], [StatusMessage ''Deconnection detected''], []],
               trace := trace st_connected @
                 [Request (poll_request cr0 (Some ''abc'')), Emit disconnect_fanout,
                  Request (open_request cr0), Request (login_request cr0 (Some ''abc''))]\<rparr>)"
    by (simp add: poll_cycle_def peer_login_down_def cr0_def st_connected_def
          helpers_request_simp request_body_def Let_def emit_alt returnJsonArray_def
          disconnect_fanout_def connectToServer_def write_session_file_def fs_trigger_def
          empty_channels_def disconnected_def poll_request_def open_request_def
          login_request_def)
  have a: "isActive st_connected" by (simp add: st_connected_def)
  have "monitorNotifications (Suc 4) 1 parse0 peer_login_down cr0 st_connected =
     Threw (st_connected
              \<lparr>outputArray :=
                 [[], [], [], [], [], [], [StatusMessage ''Deconnection detected''], []],
               trace := trace st_connected @
                 [Request (poll_request cr0 (Some ''abc'')), Emit disconnect_fanout,
                  Request (open_request cr0), Request (login_request cr0 (Some ''abc''))]\<rparr>)"
    using a c by (rule monitor_ends_with_cycle)
  with c show ?thesis by simp
qed

section \<open>The session store\<close>

lemma keepAlive_files [simp]: "files (keepAlive st) = files st"
  by (simp add: keepAlive_def Let_def split: option.splits session_doc.splits)

lemma keepAlive_trace [simp]: "trace (keepAlive st) = trace st"
  by (simp add: keepAlive_def Let_def split: option.splits session_doc.splits)

lemma keepAlive_array_file:
  "session_file (files st) = Some (ArrayDoc es) \<Longrightarrow> keepAlive st = st"
  by (simp add: keepAlive_def)

text \<open>Where \<open>keepAlive\<close> arms its timers, the file holds neither a session id nor an
  address that \<open>getSession\<close> and \<open>getIp\<close> would return, and \<open>stopKeepAlive\<close> then sends no
  \<open>Logout\<close> and removes nothing.\<close>

lemma keepAlive_armed_has_no_session:
  assumes "timers (keepAlive st) \<noteq> timers st"
  shows "getSession (files st) = None \<and> getIp (files st) = None"
  using assms
  by (auto simp: keepAlive_def getSession_def getIp_def Let_def
        split: option.splits session_doc.splits)

lemma stopKeepAlive_without_session:
  assumes "getSession (files st) = None"
  shows "files (stopKeepAlive p st) = files st \<and> trace (stopKeepAlive p st) = trace st"
  using assms by (simp add: stopKeepAlive_def Let_def)

lemma armed_timeout_logs_nothing_out:
  assumes "timers (keepAlive st) \<noteq> timers st"
  shows "files (fire p StopKeepAlive (keepAlive st)) = files st
       \<and> trace (fire p StopKeepAlive (keepAlive st)) = trace st"
proof -
  have "getSession (files (keepAlive st)) = None"
    using keepAlive_armed_has_no_session [OF assms] by simp
  from stopKeepAlive_without_session [OF this, of p] show ?thesis
    by (simp add: fire_def)
qed

text \<open>
  Claim C4 (counterexample). \<open>saveSessionToFile("abc")\<close> on an empty store followed by
  \<open>getSession()\<close> and \<open>getIp()\<close> yields nothing: the record went to
  \<open>sessionIdMcp.json\<close>, without an address.
\<close>

theorem save_then_load_counterexample:
  "getSession (saveSessionToFile (Some ''abc'') fs_empty) = None
   \<and> getIp (saveSessionToFile (Some ''abc'') fs_empty) = None
   \<and> saveSessionToFile (Some ''abc'') fs_empty =
       \<lparr>dir_exists = True, session_file = None,
        session_file_mcp = Some (ObjectDoc (Some ''abc''))\<rparr>"
  by (simp add: getSession_def getIp_def saveSessionToFile_def fs_empty_def)

text \<open>
  Claim C4 (amended). \<open>saveSessionToFile\<close> never changes what \<open>getSession\<close> and \<open>getIp\<close>
  return. The record the trigger writes on connect, \<open>[{sessionId, ip}]\<close>, is read back
  exactly, by \<open>getSession\<close> and \<open>getIp\<close> and by the check of \<open>execute\<close>, when the
  session directory exists and both strings are non-empty.
\<close>

theorem session_record_round_trip:
  "getSession (saveSessionToFile v f) = getSession f
   \<and> getIp (saveSessionToFile v f) = getIp f
   \<and> (dir_exists f \<and> sid \<noteq> [] \<and> addr \<noteq> [] \<longrightarrow>
        getSession (write_session_file (Some sid) addr f) = Some sid
      \<and> getIp (write_session_file (Some sid) addr f) = Some addr
      \<and> read_session (write_session_file (Some sid) addr f) = Inr (Some sid))"
  by (simp add: getSession_def getIp_def read_session_def saveSessionToFile_def
        write_session_file_def non_empty_def)

theorem session_record_round_trip_witness:
  "dir_exists fs_empty
   \<and> getSession (write_session_file (Some ''abc'') ''10.0.0.5'' fs_empty) = Some ''abc''
   \<and> getIp (write_session_file (Some ''abc'') ''10.0.0.5'' fs_empty) = Some ''10.0.0.5''
   \<and> read_session (write_session_file (Some ''abc'') ''10.0.0.5'' fs_empty) = Inr (Some ''abc'')"
proof -
  have d: "dir_exists fs_empty" by (simp add: fs_empty_def)
  from session_record_round_trip [of _ fs_empty "''abc''" "''10.0.0.5''"] d
  show ?thesis by simp
qed

section \<open>Keep-alive\<close>

text \<open>
  Claim C6 (the code at the failing input). The store holds the session the trigger
  wrote, \<open>[{sessionId: "abc", ip: "10.0.0.5"}]\<close>, which \<open>getSession\<close> and \<open>getIp\<close>
  return. \<open>keepAlive\<close> on it changes nothing: no interval and no timeout is armed, so no
  probe is sent and no automatic logout follows.
\<close>

theorem keepAlive_arms_nothing:
  "getSession fs_trigger = Some ''abc''
   \<and> getIp fs_trigger = Some ''10.0.0.5''
   \<and> keepAlive (initial_mstate fs_trigger) = initial_mstate fs_trigger
   \<and> timers (keepAlive (initial_mstate fs_trigger)) = []
   \<and> keepAliveInterval (keepAlive (initial_mstate fs_trigger)) = None
   \<and> stopKeepAliveTimeout (keepAlive (initial_mstate fs_trigger)) = None"
  by (simp add: getSession_def getIp_def non_empty_def fs_trigger_def keepAlive_def
        initial_mstate_def)

section \<open>login-session and the store\<close>

lemma login_session_effect:
  assumes "read_session_id string_text
             (p (trace st) \<lparr>host = render (getIp (files st)), endpoint = Open,
                            session_header = None\<rparr>) = Inr sid"
  shows "files (snd (login_session string_text p u pw st)) =
           saveSessionToFile (Some sid) (files st)
       \<and> trace (snd (login_session string_text p u pw st)) =
           trace st @
           [Request \<lparr>host = render (getIp (files st)), endpoint = Open, session_header = None\<rparr>,
            Request \<lparr>host = render (getIp (files st)), endpoint = Login u pw,
                     session_header = Some sid\<rparr>,
            Request \<lparr>host = render (getIp (files st)), endpoint = StartNotifications,
                     session_header = Some sid\<rparr>,
            Request \<lparr>host = render (getIp (files st)), endpoint = AddFilterNotifications,
                     session_header = Some sid\<rparr>]"
  using assms
  by (simp add: login_session_def do_fetch_def AppVisionRequest_def Let_def split: prod.splits)




text \<open>
  Claim C10 (the code at the failing input). The store holds the trigger's session; the
  peer opens the session \<open>xyz\<close> and answers \<open>Login\<close> with a body holding \<open>401\<close>.
  \<open>login-session\<close> returns the unauthorized text with \<open>{sessionId: "xyz"}\<close> written and
  \<open>StartNotifications\<close> and \<open>AddFilterNotifications\<close> sent, but the \<open>keepAlive\<close> it
  called has armed no timer: keep-alive is not started.
\<close>

theorem login_401_persists_but_no_keepalive:
  "login_session string_text0 peer_401 ''admin'' ''wrong'' (initial_mstate fs_trigger) =
     (''Unauthorized: Incorrect username or password.'',
      \<lparr>files =
         \<lparr>dir_exists = True,
          session_file = Some (ArrayDoc [Entry (Some ''abc'') (Some ''10.0.0.5'')]),
          session_file_mcp = Some (ObjectDoc (Some ''xyz''))\<rparr>,
       trace =
         [Request \<lparr>host = ''10.0.0.5'', endpoint = Open, session_header = None\<rparr>,
          Request \<lparr>host = ''10.0.0.5'', endpoint = Login ''admin'' ''wrong'',
                   session_header = Some ''xyz''\<rparr>,
          Request \<lparr>host = ''10.0.0.5'', endpoint = StartNotifications,
                   session_header = Some ''xyz''\<rparr>,
          Request \<lparr>host = ''10.0.0.5'', endpoint = AddFilterNotifications,
                   session_header = Some ''xyz''\<rparr>],
       keepAliveInterval = None, stopKeepAliveTimeout = None, timers = [],
       next_handle = 0, unhandled_rejection = False\<rparr>)"
  by (simp add: login_session_def do_fetch_def AppVisionRequest_def Let_def initial_mstate_def
        fs_trigger_def getIp_def non_empty_def render_def peer_401_def
        read_session_id_def string_text0_def trim_def js_white_space_def saveSessionToFile_def
        keepAlive_def response_text_def login_result_def)

section \<open>The check for a session\<close>

lemma getSessionAndHeaders_none:
  "getSession (files st) = None \<Longrightarrow> getSessionAndHeaders st = (None, keepAlive st)"
  by (simp add: getSessionAndHeaders_def Let_def)

text \<open>
  Claim C8 (counterexample). With no session file, the tool \<open>get-current-alarms\<close>
  answers \<open>No active session. Please log in first.\<close>, and \<open>execute\<close> of the node
  answers with another error, \<open>Impossible de lire le fichier sessionId.json\<close>.
\<close>

theorem no_session_result_not_uniform:
  "getSession fs_empty = None
   \<and> fst (get_current_alarms peer_up (initial_mstate fs_empty)) =
       ''No active session. Please log in first.''
   \<and> fst (execute_getCurrentAlarms parse0 peer_up cr0 \<lparr>files = fs_empty, trace = []\<rparr>) =
       ErrorDetails ''Impossible de lire le fichier sessionId.json'' NoSuchFile
   \<and> error_of (fst (execute_getCurrentAlarms parse0 peer_up cr0
                       \<lparr>files = fs_empty, trace = []\<rparr>)) \<noteq>
       Some (fst (get_current_alarms peer_up (initial_mstate fs_empty)))"
  by (simp add: getSession_def fs_empty_def get_current_alarms_def keepAlive_def
        initial_mstate_def Let_def no_active_session_def execute_getCurrentAlarms_def
        read_session_def cannot_read_def error_of_def)

lemma get_profile_by_name_is_tool:
  "get_profile_by_name p name =
     tool_with_helper
       (\<lambda>sid ip st1.
          let (response, st2) =
                AppVisionRequest p
                  \<lparr>host = render ip, endpoint = GetProfileByName name,
                   session_header = Some sid\<rparr> st1
          in case response of
               None \<Rightarrow> (''No profile found with name: '' @ name @ ''.'', st2)
             | Some r \<Rightarrow> (''Profile retrieved successfully: '' @ r, st2))"
  by (rule ext) (simp only: get_profile_by_name_def tool_with_helper_def)

lemma get_current_alarms_is_tool:
  "get_current_alarms p =
     tool_inline
       (\<lambda>sid ip st1.
          let (result, st2) =
                AppVisionRequest p
                  \<lparr>host = render ip, endpoint = GetCurrentAlarms, session_header = Some sid\<rparr> st1
          in case result of
               None \<Rightarrow> (''Failed to retrieve current alarms.'', st2)
             | Some r \<Rightarrow> (r, st2))"
  by (rule ext) (simp only: get_current_alarms_def tool_inline_def)

lemma login_session_sends_Open:
  "\<exists>rs. trace (snd (login_session string_text p u pw st)) =
          trace st @
          Request \<lparr>host = render (getIp (files st)), endpoint = Open, session_header = None\<rparr> # rs"
proof (cases "read_session_id string_text
                (p (trace st) \<lparr>host = render (getIp (files st)), endpoint = Open,
                               session_header = None\<rparr>)")
  case (Inl msg)
  then have "trace (snd (login_session string_text p u pw st)) =
          trace st @
          Request \<lparr>host = render (getIp (files st)), endpoint = Open, session_header = None\<rparr> # []"
    by (simp add: login_session_def do_fetch_def Let_def)
  then show ?thesis by blast
next
  case (Inr sid)
  from login_session_effect [where p = p and st = st and string_text = string_text, OF Inr]
  show ?thesis by simp
qed

text \<open>
  Claim C8 (amended). A tool of the server that opens with the check for a session,
  through \<open>getSessionAndHeaders\<close> or with the same steps inline, returns the text
  \<open>No active session. Please log in first.\<close> and sends nothing when the store yields no
  session id, whatever the rest of the tool is; all it has done is the \<open>keepAlive\<close> call,
  which leaves an unhandled rejection behind when the file is unparsable.
  \<open>get-profile-by-name\<close> and \<open>get-current-alarms\<close> are such tools. \<open>login-session\<close> is
  not: it makes no check and sends \<open>Open\<close>. \<open>execute\<close> of the node sends nothing either
  and returns its own error: \<open>Impossible de lire le fichier sessionId.json\<close> when the
  file is missing or unparsable, the \<open>Aucun sessionId\<close> message otherwise.
\<close>

theorem no_session_precheck:
  assumes "getSession (files st) = None" and "getSession (files w) = None"
  shows "tool_with_helper rest st = (''No active session. Please log in first.'', keepAlive st)
       \<and> tool_inline rest st = (''No active session. Please log in first.'', keepAlive st)
       \<and> get_profile_by_name p name st =
           (''No active session. Please log in first.'', keepAlive st)
       \<and> get_current_alarms p st = (''No active session. Please log in first.'', keepAlive st)
       \<and> trace (keepAlive st) = trace st
       \<and> files (keepAlive st) = files st
       \<and> unhandled_rejection (keepAlive st) =
           (unhandled_rejection st \<or> session_file (files st) = Some Unparsable)
       \<and> (\<exists>rs. trace (snd (login_session string_text p u pw st)) =
                 trace st @
                 Request \<lparr>host = render (getIp (files st)), endpoint = Open,
                          session_header = None\<rparr> # rs)
       \<and> execute_getCurrentAlarms parse p cr w =
           (if session_file (files w) = None then ErrorDetails cannot_read NoSuchFile
            else if session_file (files w) = Some Unparsable then ErrorDetails cannot_read SyntaxError
            else ErrorOnly no_session_id, w)"
proof (intro conjI)
  show h: "tool_with_helper rest st =
          (''No active session. Please log in first.'', keepAlive st)" for rest
    using assms(1)
    by (simp add: tool_with_helper_def getSessionAndHeaders_none no_active_session_def)
  show i: "tool_inline rest st = (''No active session. Please log in first.'', keepAlive st)"
    for rest
    using assms(1) by (simp add: tool_inline_def Let_def no_active_session_def)
  show "get_profile_by_name p name st =
          (''No active session. Please log in first.'', keepAlive st)"
    by (simp add: get_profile_by_name_is_tool h)
  show "get_current_alarms p st = (''No active session. Please log in first.'', keepAlive st)"
    by (simp add: get_current_alarms_is_tool i)
  show "trace (keepAlive st) = trace st" by simp
  show "files (keepAlive st) = files st" by simp
  show "unhandled_rejection (keepAlive st) =
           (unhandled_rejection st \<or> session_file (files st) = Some Unparsable)"
    by (auto simp: keepAlive_def Let_def split: option.splits session_doc.splits)
  show "\<exists>rs. trace (snd (login_session string_text p u pw st)) =
                 trace st @
                 Request \<lparr>host = render (getIp (files st)), endpoint = Open,
                          session_header = None\<rparr> # rs"
    by (rule login_session_sends_Open)
  show "execute_getCurrentAlarms parse p cr w =
           (if session_file (files w) = None then ErrorDetails cannot_read NoSuchFile
            else if session_file (files w) = Some Unparsable then ErrorDetails cannot_read SyntaxError
            else ErrorOnly no_session_id, w)"
    using assms(2)
    by (auto simp: execute_getCurrentAlarms_def read_session_def getSession_def
          split: option.splits session_doc.splits list.splits)
qed

theorem no_session_precheck_witness:
  "getSession (files (initial_mstate fs_empty)) = None
   \<and> getSession (files \<lparr>files = fs_empty, trace = []\<rparr>) = None
   \<and> tool_with_helper (\<lambda>sid ip st1. (sid, st1)) (initial_mstate fs_empty) =
       (''No active session. Please log in first.'', initial_mstate fs_empty)
   \<and> tool_inline (\<lambda>sid ip st1. (sid, st1)) (initial_mstate fs_empty) =
       (''No active session. Please log in first.'', initial_mstate fs_empty)
   \<and> get_profile_by_name peer_up ''operator'' (initial_mstate fs_empty) =
       (''No active session. Please log in first.'', initial_mstate fs_empty)
   \<and> get_current_alarms peer_up (initial_mstate fs_empty) =
       (''No active session. Please log in first.'', initial_mstate fs_empty)
   \<and> execute_getCurrentAlarms parse0 peer_up cr0 \<lparr>files = fs_empty, trace = []\<rparr> =
       (ErrorDetails cannot_read NoSuchFile, \<lparr>files = fs_empty, trace = []\<rparr>)"
proof -
  have m: "getSession (files (initial_mstate fs_empty)) = None"
    by (simp add: getSession_def initial_mstate_def fs_empty_def)
  have n: "getSession (files \<lparr>files = fs_empty, trace = []\<rparr>) = None"
    by (simp add: getSession_def fs_empty_def)
  have k: "keepAlive (initial_mstate fs_empty) = initial_mstate fs_empty"
    by (simp add: keepAlive_def initial_mstate_def fs_empty_def)
  have f: "session_file (files \<lparr>files = fs_empty, trace = []\<rparr>) = None"
    by (simp add: fs_empty_def)
  from no_session_precheck
         [OF m n, where rest = "\<lambda>sid ip st1. (sid, st1)" and p = peer_up
            and name = "''operator''" and parse = parse0 and cr = cr0] k f
  show ?thesis using m n by simp
qed

section \<open>Shutdown\<close>

lemma monitor_stops_when_inactive:
  "\<not> isActive st \<Longrightarrow> monitorNotifications n fuel parse p cr st = Ok st"
  by (cases n) simp_all

lemma cleanup_when_close_answers:
  assumes "sessionId st = Some sid" "sid \<noteq> []"
      and "request_body (p (trace st) (close_request cr (Some sid))) = Some b"
  shows "cleanup p cr st =
           Ok (st\<lparr>trace := trace st @
                    [Request (close_request cr (Some sid)),
                     Emit [[], [], [], [], [], [],
                           [Json (StatusMessageSession
                                    ''Deconnection detected, caused by desacitvation'' sid)],
                           []]],
                  outputArray :=
                    [[], [], [], [], [], [],
                     [StatusMessageSession
                        ''Deconnection detected, caused by desacitvation'' sid], []],
                  isActive := False\<rparr>)"
  using assms
  by (simp add: cleanup_def non_empty_def helpers_request_simp close_request_def Let_def
        emit_alt empty_channels_def returnJsonArray_def)

lemma cleanup_when_close_fails:
  assumes "sessionId st = Some sid" "sid \<noteq> []"
      and "request_body (p (trace st) (close_request cr (Some sid))) = None"
  shows "cleanup p cr st =
           Threw (st\<lparr>trace := trace st @ [Request (close_request cr (Some sid))]\<rparr>)"
  using assms
  by (simp add: cleanup_def non_empty_def helpers_request_simp close_request_def Let_def)

lemma monitor_keeps_polling:
  assumes quiet: "\<And>tr rq. endpoint rq = GetNotifications \<Longrightarrow> p tr rq = Http 200 []"
  shows "isActive st \<Longrightarrow> monitorNotifications n fuel parse p cr st = OutOfFuel"
proof (induction n arbitrary: st)
  case 0
  then show ?case by simp
next
  case (Suc n)
  have "request_body (p (trace st) (poll_request cr (sessionId st))) = Some []"
    by (simp add: quiet poll_request_def request_body_def)
  then have "poll_cycle fuel parse p cr st =
      Ok (st\<lparr>trace := trace st @ [Request (poll_request cr (sessionId st))]\<rparr>)"
    by (simp add: poll_cycle_fetched [where p = p and st = st and cr = cr])
  moreover have "monitorNotifications n fuel parse p cr
      (st\<lparr>trace := trace st @ [Request (poll_request cr (sessionId st))]\<rparr>) = OutOfFuel"
    using Suc.prems by (intro Suc.IH) simp
  ultimately show ?case using Suc.prems by simp
qed

text \<open>
  Claim C7 (the code at the failing input). The trigger is connected under the session
  \<open>abc\<close> and the peer is unreachable for \<open>Close\<close>. \<open>cleanup\<close> ends by the exception of
  its request: nothing is emitted, \<open>isActive\<close> is still true, and the polling loop goes
  on, cycle after cycle.
\<close>

theorem cleanup_close_failure_keeps_polling:
  "cleanup peer_close_down cr0 st_connected =
     Threw (st_connected\<lparr>trace := trace st_connected @
                                    [Request (close_request cr0 (Some ''abc''))]\<rparr>)
   \<and> isActive (st_connected\<lparr>trace := trace st_connected @
                                    [Request (close_request cr0 (Some ''abc''))]\<rparr>)
   \<and> poll_cycle 1 parse0 peer_close_down cr0
       (st_connected\<lparr>trace := trace st_connected @
                                [Request (close_request cr0 (Some ''abc''))]\<rparr>) =
     Ok (st_connected\<lparr>trace := trace st_connected @
                                [Request (close_request cr0 (Some ''abc'')),
                                 Request (poll_request cr0 (Some ''abc''))]\<rparr>)
   \<and> monitorNotifications 3 1 parse0 peer_close_down cr0
       (st_connected\<lparr>trace := trace st_connected @
                                [Request (close_request cr0 (Some ''abc''))]\<rparr>) = OutOfFuel"
proof -
  let ?st = "st_connected\<lparr>trace := trace st_connected @
                                [Request (close_request cr0 (Some ''abc''))]\<rparr>"
  have c: "cleanup peer_close_down cr0 st_connected = Threw ?st"
    by (rule cleanup_when_close_fails)
       (simp_all add: st_connected_def peer_close_down_def close_request_def request_body_def)
  have a: "isActive ?st" by (simp add: st_connected_def)
  have q: "\<And>tr rq. endpoint rq = GetNotifications \<Longrightarrow> peer_close_down tr rq = Http 200 []"
    by (simp add: peer_close_down_def)
  have "request_body (peer_close_down (trace ?st) (poll_request cr0 (sessionId ?st))) = Some []"
    by (simp add: q poll_request_def request_body_def)
  then have p: "poll_cycle 1 parse0 peer_close_down cr0 ?st =
      Ok (?st\<lparr>trace := trace ?st @ [Request (poll_request cr0 (sessionId ?st))]\<rparr>)"
    by (simp add: poll_cycle_fetched [where p = peer_close_down and st = ?st and cr = cr0])
  have m: "monitorNotifications 3 1 parse0 peer_close_down cr0 ?st = OutOfFuel"
    using q a by (rule monitor_keeps_polling)
  from c a p m show ?thesis by (simp add: st_connected_def)
qed

end
